theory Spec2Isabelle
  imports Main
begin

section \<open>JavaScript values used by the sources\<close>

text \<open>
  Strings are \<open>string\<close>. A value of type \<open>string | undefined\<close> (or \<open>string | null\<close>) is a
  \<open>string option\<close>.
\<close>

text \<open>
  \<open>a || b\<close> on a \<open>string | undefined\<close> left operand and a string right operand: the left
  operand when it is truthy (defined and not the empty string), the right one otherwise.
\<close>

definition truthy :: "string option \<Rightarrow> bool" where
  "truthy v = (case v of None \<Rightarrow> False | Some s \<Rightarrow> s \<noteq> [])"

definition or_else :: "string option \<Rightarrow> string \<Rightarrow> string" where
  "or_else v d = (case v of None \<Rightarrow> d | Some s \<Rightarrow> if s = [] then d else s)"

text \<open>\<open>s.split(c)\<close> for a one-character separator: every occurrence separates.\<close>

fun split_on :: "char \<Rightarrow> string \<Rightarrow> string list" where
  "split_on c [] = [[]]"
| "split_on c (x # xs) =
     (if x = c then [] # split_on c xs
      else (case split_on c xs of
              [] \<Rightarrow> [[x]]
            | p # ps \<Rightarrow> (x # p) # ps))"

text \<open>\<open>s.startsWith(p)\<close> and \<open>s.includes(t)\<close>.\<close>

fun startsWith :: "string \<Rightarrow> string \<Rightarrow> bool" where
  "startsWith s [] = True"
| "startsWith [] (p # ps) = False"
| "startsWith (c # cs) (p # ps) = (c = p \<and> startsWith cs ps)"

fun str_includes :: "string \<Rightarrow> string \<Rightarrow> bool" where
  "str_includes [] t = (t = [])"
| "str_includes (c # cs) t = (startsWith (c # cs) t \<or> str_includes cs t)"

subsection \<open>Numbers\<close>

text \<open>
  A JavaScript number is an IEEE double. The numbers of the sources (clock readings in
  milliseconds, \<open>expires_in\<close>, \<open>ttlMinutes\<close>) are modelled where they are integers, as
  \<open>int\<close>, below the overflow of doubles; fractions are not modelled. A sum or product of
  doubles is the exact result rounded to a double: to 53 significant bits, to the
  nearest, ties to the even significand. \<open>sig_shift m\<close> counts the low bits that do not
  fit; an integer below \<open>2^53\<close> in magnitude is its own rounding.
\<close>

function sig_shift :: "nat \<Rightarrow> nat" where
  "sig_shift m = (if m < 2 ^ 53 then 0 else Suc (sig_shift (m div 2)))"
  by pat_completeness auto
termination
  by (relation "measure (\<lambda>m. m)") auto

declare sig_shift.simps [simp del]

definition round_nat :: "nat \<Rightarrow> nat" where
  "round_nat m =
     (let k = sig_shift m;
          q = m div 2 ^ k;
          r = m mod 2 ^ k
      in (if 2 * r > 2 ^ k \<or> (2 * r = 2 ^ k \<and> odd q) then q + 1 else q) * 2 ^ k)"

definition js_round :: "int \<Rightarrow> int" where
  "js_round n = (if n < 0 then - int (round_nat (nat (- n))) else int (round_nat (nat n)))"

definition js_add :: "int \<Rightarrow> int \<Rightarrow> int" where
  "js_add a b = js_round (a + b)"

definition js_mul :: "int \<Rightarrow> int \<Rightarrow> int" where
  "js_mul a b = js_round (a * b)"

text \<open>A number in a template string or in \<open>String(...)\<close>: its decimal digits.\<close>

fun show_nat :: "nat \<Rightarrow> string" where
  "show_nat n =
     (if n < 10 then [char_of (48 + n)]
      else show_nat (n div 10) @ [char_of (48 + n mod 10)])"

declare show_nat.simps [simp del]

definition show_int :: "int \<Rightarrow> string" where
  "show_int i = (if i < 0 then CHR ''-'' # show_nat (nat (- i)) else show_nat (nat i))"

subsection \<open>Parsed JSON\<close>

text \<open>
  What \<open>JSON.parse\<close> returns: any JSON value (numbers where they are integers). An object
  is the list of its properties, each name once. A value that may be \<open>undefined\<close> is a
  \<open>json option\<close>.
\<close>

datatype json =
    JNull
  | JBool bool
  | JNum int
  | JStr string
  | JArr "json list"
  | JObj "(string \<times> json) list"

text \<open>Truthiness: \<open>null\<close>, \<open>false\<close>, \<open>0\<close>, the empty string and \<open>undefined\<close> are falsy.\<close>

fun json_truthy :: "json \<Rightarrow> bool" where
  "json_truthy JNull = False"
| "json_truthy (JBool b) = b"
| "json_truthy (JNum n) = (n \<noteq> 0)"
| "json_truthy (JStr s) = (s \<noteq> [])"
| "json_truthy (JArr xs) = True"
| "json_truthy (JObj ps) = True"


text \<open>\<open>a || b\<close> where \<open>b\<close> is defined: \<open>a\<close> when it is truthy, \<open>b\<close> otherwise.\<close>

definition js_or :: "json option \<Rightarrow> json \<Rightarrow> json" where
  "js_or v d = (case v of None \<Rightarrow> d | Some j \<Rightarrow> if json_truthy j then j else d)"

text \<open>
  \<open>v?.name\<close> for one of the names \<open>error\<close> and \<open>error_description\<close>: the property of an
  object when it has it; \<open>undefined\<close> for \<open>null\<close> (the optional chain), for an object
  without it, and for a boolean, a number, a string or an array, which have no property
  of these names.
\<close>

fun optional_prop :: "json \<Rightarrow> string \<Rightarrow> json option" where
  "optional_prop (JObj ps) name = map_of ps name"
| "optional_prop j name = None"

text \<open>
  \<open>String(v)\<close>, which is also how an \<open>Error\<close> turns the message it is given into its
  \<open>message\<close>: an object is \<open>[object Object]\<close>, an array its elements joined by commas
  (\<open>null\<close> elements as empty strings).
\<close>

fun join_commas :: "string list \<Rightarrow> string" where
  "join_commas [] = []"
| "join_commas [s] = s"
| "join_commas (s # t # ts) = s @ '','' @ join_commas (t # ts)"

fun js_String :: "json \<Rightarrow> string" where
  "js_String JNull = ''null''"
| "js_String (JBool b) = (if b then ''true'' else ''false'')"
| "js_String (JNum n) = show_int n"
| "js_String (JStr s) = s"
| "js_String (JArr xs) = join_commas (map (\<lambda>x. if x = JNull then [] else js_String x) xs)"
| "js_String (JObj ps) = ''[object Object]''"

subsection \<open>Thrown values and promises\<close>

text \<open>
  Thrown values are collected in one datatype: a plain \<open>Error\<close> with its message, a thrown
  value that is not an \<open>Error\<close> (with its \<open>String(...)\<close> rendering), and the two error
  classes the sources construct themselves, which keep the arguments they are given:
  \<open>OAuthError(message, provider, code)\<close>, whose message and code are whatever values the
  source passes, and \<open>ProviderError(message, provider, status, {originalError})\<close>.
\<close>

datatype thrown =
    JsError string
  | NonError string
  | OAuthError json string "json option"
  | ProviderError string string nat string

text \<open>The settled state of a promise.\<close>

datatype 'a promise = Resolved 'a | Rejected thrown

text \<open>\<open>error instanceof Error ? error.message : String(error)\<close>.\<close>

fun error_text :: "thrown \<Rightarrow> string" where
  "error_text (JsError m) = m"
| "error_text (NonError s) = s"
| "error_text (OAuthError m p c) = js_String m"
| "error_text (ProviderError m p st d) = m"

section \<open>The OAuth exchange protocol (\<open>AnthropicOAuthProvider.exchangeCode\<close>)\<close>

datatype oauth_mode = Console | Max

record OAuthProviderConfig =
  authorizeUrl :: string
  tokenUrl :: string
  clientId :: string
  scopes :: "string list"
  redirectUri :: string
  cfg_mode :: oauth_mode

record TokenResult =
  refreshToken :: string
  accessToken :: string
  expiresAt :: int

text \<open>
  The call \<open>fetch(config.tokenUrl, {method, headers, body: JSON.stringify(requestBody)})\<close>.
  The headers are the entries of the object literal, in order. The body is kept as the
  object that \<open>JSON.stringify\<close> serialises: its properties, in order, all of them strings.
\<close>

record token_request =
  rq_url :: string
  rq_method :: string
  rq_headers :: "(string \<times> string) list"
  rq_body :: "(string \<times> string) list"

text \<open>
  The parsed success payload, of the type the source asserts for \<open>response.json()\<close>.
\<close>

record token_payload =
  refresh_token :: string
  access_token :: string
  expires_in :: int

text \<open>
  The response of the token endpoint: \<open>response.ok\<close> is \<open>status\<close> in 200..299;
  \<open>response.text()\<close> and \<open>response.json()\<close> may reject.
\<close>

record token_response =
  rs_status :: nat
  rs_statusText :: string
  rs_text :: "thrown + string"
  rs_json :: "thrown + token_payload"

definition rs_ok :: "token_response \<Rightarrow> bool" where
  "rs_ok r = (200 \<le> rs_status r \<and> rs_status r \<le> 299)"

text \<open>
  What \<open>exchangeCode\<close> uses from outside: the network (\<open>fetch\<close>, which may reject),
  \<open>JSON.parse\<close> on an error body (\<open>None\<close> when it throws), and the clock \<open>Date.now()\<close> in
  milliseconds.
\<close>

record exchange_env =
  fetch :: "token_request \<Rightarrow> thrown + token_response"
  JSON_parse :: "string \<Rightarrow> json option"
  Date_now :: int

text \<open>
  Lines 50-58: a code containing \<open>#\<close> is split with \<open>code.split("#")\<close>; \<open>authCode\<close> is
  \<open>splits[0]\<close> and \<open>extractedState\<close> is \<open>splits[1] || ""\<close>. (\<open>split\<close> never returns an
  empty array, and returns at least two parts when the separator occurs; the remaining
  cases of the pattern match are there for totality only.)
\<close>

definition split_code :: "string \<Rightarrow> string \<times> string" where
  "split_code code =
     (if CHR ''#'' \<in> set code then
        (case split_on (CHR ''#'') code of
           [] \<Rightarrow> ([], [])
         | [a] \<Rightarrow> (a, [])
         | a # b # _ \<Rightarrow> (a, b))
      else (code, []))"

text \<open>Lines 60-92: the final state, the request body and the request.\<close>

definition token_request_of ::
  "string \<Rightarrow> string \<Rightarrow> OAuthProviderConfig \<Rightarrow> string option \<Rightarrow> token_request" where
  "token_request_of code verifier config stateParam =
     (let authCode = fst (split_code code);
          extractedState = snd (split_code code);
          finalState = or_else stateParam extractedState;
          requestBody =
            [(''grant_type'', ''authorization_code''),
             (''code'', authCode),
             (''redirect_uri'', redirectUri config),
             (''client_id'', clientId config),
             (''code_verifier'', verifier),
             (''state'', finalState)]
      in \<lparr> rq_url = tokenUrl config,
           rq_method = ''POST'',
           rq_headers =
             [(''Content-Type'', ''application/json''),
              (''Accept'', ''application/json, text/plain, */*''),
              (''User-Agent'', ''axios/1.8.4'')],
           rq_body = requestBody \<rparr>)"

text \<open>
  Lines 95-105: \<open>errorDetails\<close> starts as \<open>null\<close> and stays so when reading the text or
  parsing it throws; otherwise it is whatever \<open>JSON.parse\<close> returned (the type the source
  writes for it is not checked at run time).
\<close>

definition errorDetails_of :: "exchange_env \<Rightarrow> token_response \<Rightarrow> json" where
  "errorDetails_of env response =
     (case rs_text response of
        Inl e \<Rightarrow> JNull
      | Inr txt \<Rightarrow> (case JSON_parse env txt of None \<Rightarrow> JNull | Some parsed \<Rightarrow> parsed))"

text \<open>
  Lines 113-119: the message is the first truthy one of \<open>errorDetails?.error_description\<close>,
  \<open>errorDetails?.error\<close>, \<open>response.statusText\<close> and the fixed text; the error code is
  \<open>errorDetails?.error\<close>. Both are handed to \<open>OAuthError\<close> as they are.
\<close>

definition exchange_error :: "exchange_env \<Rightarrow> token_response \<Rightarrow> thrown" where
  "exchange_error env response =
     (let errorDetails = errorDetails_of env response;
          errorMessage =
            js_or (optional_prop errorDetails ''error_description'')
              (js_or (optional_prop errorDetails ''error'')
                 (js_or (Some (JStr (rs_statusText response)))
                    (JStr ''OAuth token exchange failed'')))
      in OAuthError errorMessage ''anthropic'' (optional_prop errorDetails ''error''))"

text \<open>
  \<open>exchangeCode\<close>: the settled promise, and the list of requests it sent to the token
  endpoint. \<open>expiresAt\<close> is \<open>Date.now() + json.expires_in * 1000\<close> in the arithmetic of
  doubles. The \<open>console.log\<close>/\<open>console.error\<close> lines print and change nothing else; they
  are left out.
\<close>

definition exchangeCode ::
  "exchange_env \<Rightarrow> string \<Rightarrow> string \<Rightarrow> OAuthProviderConfig \<Rightarrow> string option
     \<Rightarrow> TokenResult promise \<times> token_request list" where
  "exchangeCode env code verifier config stateParam =
     (let request = token_request_of code verifier config stateParam
      in case fetch env request of
           Inl e \<Rightarrow> (Rejected e, [request])
         | Inr response \<Rightarrow>
             if \<not> rs_ok response then (Rejected (exchange_error env response), [request])
             else (case rs_json response of
                     Inl e \<Rightarrow> (Rejected e, [request])
                   | Inr json \<Rightarrow>
                       (Resolved \<lparr> refreshToken = refresh_token json,
                                   accessToken = access_token json,
                                   expiresAt =
                                     js_add (Date_now env) (js_mul (expires_in json) 1000) \<rparr>,
                        [request])))"

text \<open>A property of the request body, by its name.\<close>

definition body_field :: "string \<Rightarrow> token_request \<Rightarrow> string option" where
  "body_field k rq = map_of (rq_body rq) k"

section \<open>The OAuth session store (\<open>OAuthRepository\<close>)\<close>

text \<open>
  A row of the table \<open>oauth_sessions\<close>, with the columns the statements name. Times
  are epoch milliseconds.
\<close>

record session_row =
  row_id :: string
  row_account_name :: string
  row_verifier :: string
  row_mode :: oauth_mode
  row_tier :: int
  row_created_at :: int
  row_expires_at :: int
  row_state :: "string option"

record OAuthSession =
  ses_accountName :: string
  ses_verifier :: string
  ses_state :: "string option"
  ses_mode :: oauth_mode
  ses_tier :: int

type_synonym oauth_sessions = "session_row list"

text \<open>
  \<open>createSession\<close>: \<open>now = Date.now()\<close>, \<open>expiresAt = now + ttlMinutes * 60 * 1000\<close> in
  the arithmetic of doubles, with the default \<open>ttlMinutes = 10\<close>, \<open>state || null\<close> for the
  last column, and the \<open>INSERT\<close>.

  Modelled from the spec: the uniqueness of \<open>id\<close> in the table (the schema and
  \<open>BaseRepository.run\<close> are not among the sources): an \<open>INSERT\<close> with an \<open>id\<close> already
  present fails and leaves the table as it was (``collision is a caller error, not
  silently overwritten'').
\<close>

definition createSession ::
  "oauth_sessions \<Rightarrow> int \<Rightarrow> string \<Rightarrow> string \<Rightarrow> string \<Rightarrow> oauth_mode \<Rightarrow> int \<Rightarrow> int option
     \<Rightarrow> string option \<Rightarrow> thrown + oauth_sessions" where
  "createSession db Date_now_ms sessionId accountName verifier mode tier ttlMinutes_arg state =
     (let ttlMinutes = (case ttlMinutes_arg of None \<Rightarrow> 10 | Some m \<Rightarrow> m);
          now = Date_now_ms;
          expiresAt_ms = js_add now (js_mul (js_mul ttlMinutes 60) 1000);
          new_row = \<lparr> row_id = sessionId,
                      row_account_name = accountName,
                      row_verifier = verifier,
                      row_mode = mode,
                      row_tier = tier,
                      row_created_at = now,
                      row_expires_at = expiresAt_ms,
                      row_state = (if truthy state then state else None) \<rparr>
      in if sessionId \<in> set (map row_id db)
         then Inl (JsError ''UNIQUE constraint failed: oauth_sessions.id'')
         else Inr (db @ [new_row]))"

text \<open>
  \<open>getSession\<close>: the first row with \<open>id = ? AND expires_at > ?\<close> for
  \<open>[sessionId, Date.now()]\<close>, or \<open>null\<close>.
\<close>

definition getSession :: "oauth_sessions \<Rightarrow> int \<Rightarrow> string \<Rightarrow> OAuthSession option" where
  "getSession db Date_now_ms sessionId =
     (case find (\<lambda>r. row_id r = sessionId \<and> row_expires_at r > Date_now_ms) db of
        None \<Rightarrow> None
      | Some row \<Rightarrow>
          Some \<lparr> ses_accountName = row_account_name row,
                 ses_verifier = row_verifier row,
                 ses_state = row_state row,
                 ses_mode = row_mode row,
                 ses_tier = row_tier row \<rparr>)"

definition deleteSession :: "oauth_sessions \<Rightarrow> string \<Rightarrow> oauth_sessions" where
  "deleteSession db sessionId = filter (\<lambda>r. row_id r \<noteq> sessionId) db"

definition cleanupExpiredSessions :: "oauth_sessions \<Rightarrow> int \<Rightarrow> nat \<times> oauth_sessions" where
  "cleanupExpiredSessions db Date_now_ms =
     (length (filter (\<lambda>r. row_expires_at r \<le> Date_now_ms) db),
      filter (\<lambda>r. \<not> row_expires_at r \<le> Date_now_ms) db)"

section \<open>The proxy operations (\<open>proxyUnauthenticated\<close>, \<open>proxyWithAccount\<close>)\<close>

text \<open>
  A \<open>Headers\<close> object: its entries, names in lower case (the class normalises them), and
  \<open>get\<close> as the lookup.
\<close>

type_synonym headers = "(string \<times> string) list"

definition headers_get :: "headers \<Rightarrow> string \<Rightarrow> string option" where
  "headers_get h name = map_of h name"

text \<open>The fields of \<open>Account\<close>, \<open>Request\<close>, \<open>URL\<close> and \<open>RequestMeta\<close> that the two functions read.\<close>

record Account =
  acct_name :: string
  acct_api_key :: "string option"
  acct_refresh_token :: "string option"

record Request =
  in_method :: string
  in_headers :: headers
  in_has_body :: bool

record URL =
  pathname :: string
  search :: string

record RequestMeta =
  meta_id :: string
  meta_timestamp :: int
  meta_agentUsed :: "string option"

text \<open>An upstream response; \<open>resp_text\<close> is what \<open>response.clone().text()\<close> settles to.\<close>

record Response =
  resp_status :: nat
  resp_statusText :: string
  resp_headers :: headers
  resp_text :: "thrown + string"

text \<open>The arguments of one call of \<open>makeProxyRequest\<close>.\<close>

record upstream_request =
  up_url :: string
  up_method :: string
  up_headers :: headers
  up_body_stream :: "string option"
  up_has_body :: bool

text \<open>The record handed to \<open>forwardToClient\<close>.\<close>

record forwarding =
  fw_requestId :: string
  fw_method :: string
  fw_path :: string
  fw_account :: "Account option"
  fw_requestHeaders :: headers
  fw_requestBody :: "string option"
  fw_response :: Response
  fw_timestamp :: int
  fw_retryAttempt :: nat
  fw_failoverAttempts :: nat
  fw_agentUsed :: "string option"

text \<open>
  What is written to the log: a message at a level, a message with a headers object,
  and the calls \<open>logError(error, log)\<close> and \<open>handleProxyError(err, account, log)\<close>.
\<close>

datatype level = Debug | Info | Warn

datatype log_entry =
    Log level string
  | LogHeaders string headers
  | LogError thrown
  | HandleProxyError thrown Account

text \<open>
  The collaborators, which are not among the sources, as parameters; the sources fix
  only how they are called. The token manager and the response processor read and
  change shared state (the account store) of a type \<open>'s\<close>. Each call may throw (\<open>Inl\<close>):
  the awaited ones (\<open>getValidAccessToken\<close>, \<open>makeProxyRequest\<close>) by rejecting, the others
  synchronously. \<open>forwardToClient\<close> is not awaited: it either throws synchronously or
  returns a value that both functions return as it is, and that value is a promise of
  the response, which resolves or rejects later (a plain response is a resolved one).

  Modelled from the spec: \<open>handleProxyError\<close> and \<open>logError\<close> log the error they are
  given (section 4.4, ``logged with account context''). \<open>NO_ACCOUNTS\<close> and
  \<open>UNAUTHENTICATED_FAILED\<close> are the two texts of \<open>ERROR_MESSAGES\<close>; \<open>CF_DEBUG_TRAFFIC\<close> is
  \<open>process.env.CF_DEBUG_TRAFFIC === "true"\<close>.
\<close>

record 's proxy_env =
  getValidAccessToken :: "Account \<Rightarrow> 's \<Rightarrow> (thrown + string) \<times> 's"
  prepareHeaders :: "headers \<Rightarrow> string option \<Rightarrow> string option \<Rightarrow> thrown + headers"
  buildUrl :: "string \<Rightarrow> string \<Rightarrow> thrown + string"
  provider_name :: string
  makeProxyRequest :: "upstream_request \<Rightarrow> thrown + Response"
  processProxyResponse :: "Response \<Rightarrow> Account \<Rightarrow> 's \<Rightarrow> (thrown + bool) \<times> 's"
  forwardToClient :: "forwarding \<Rightarrow> thrown + Response promise"
  CF_DEBUG_TRAFFIC :: bool
  NO_ACCOUNTS :: string
  UNAUTHENTICATED_FAILED :: string

text \<open>
  The state the two functions act on: the shared store, the log, the upstream requests
  sent, and the records handed to the forwarding collaborator.
\<close>

record 's world =
  store :: 's
  logs :: "log_entry list"
  sent :: "upstream_request list"
  forwarded :: "forwarding list"

definition add_logs :: "log_entry list \<Rightarrow> 's world \<Rightarrow> 's world" where
  "add_logs es w = w\<lparr>logs := logs w @ es\<rparr>"

subsection \<open>\<open>proxyUnauthenticated\<close>\<close>

text \<open>Lines 196-211: the forwarding record of the unauthenticated attempt.\<close>

definition unauthenticated_forwarding ::
  "Request \<Rightarrow> URL \<Rightarrow> RequestMeta \<Rightarrow> string option \<Rightarrow> Response \<Rightarrow> forwarding" where
  "unauthenticated_forwarding req url requestMeta requestBodyBuffer response =
     \<lparr> fw_requestId = meta_id requestMeta,
       fw_method = in_method req,
       fw_path = pathname url,
       fw_account = None,
       fw_requestHeaders = in_headers req,
       fw_requestBody = requestBodyBuffer,
       fw_response = response,
       fw_timestamp = meta_timestamp requestMeta,
       fw_retryAttempt = 0,
       fw_failoverAttempts = 0,
       fw_agentUsed = meta_agentUsed requestMeta \<rparr>"

text \<open>
  Lines 212-222, the \<open>catch\<close>: the error is logged and a \<open>ProviderError\<close> with status 502
  and the text of the error is thrown.
\<close>

definition unauthenticated_catch ::
  "'s proxy_env \<Rightarrow> thrown \<Rightarrow> 's world \<Rightarrow> Response promise \<times> 's world" where
  "unauthenticated_catch env error w =
     (Rejected (ProviderError (UNAUTHENTICATED_FAILED env) (provider_name env) 502
                  (error_text error)),
      add_logs [LogError error] w)"

text \<open>
  The function. Lines 165-172 stand before the \<open>try\<close>: an error of \<open>buildUrl\<close> or of
  \<open>prepareHeaders\<close> (called with neither access token nor API key) leaves the function
  as it is. The \<open>try\<close> block holds the upstream call and the call of \<open>forwardToClient\<close>;
  what \<open>forwardToClient\<close> returns is returned without \<open>await\<close>, so the function's promise
  settles as that promise does, outside the \<open>try\<close>. The log texts are the sources'
  (without the emoji that opens the two debug headings).
\<close>

definition proxyUnauthenticated ::
  "'s proxy_env \<Rightarrow> Request \<Rightarrow> URL \<Rightarrow> RequestMeta \<Rightarrow> string option \<Rightarrow> string option
     \<Rightarrow> 's world \<Rightarrow> Response promise \<times> 's world" where
  "proxyUnauthenticated env req url requestMeta requestBodyBuffer createBodyStream w0 =
     (let w1 = add_logs [Log Warn (NO_ACCOUNTS env)] w0
      in case buildUrl env (pathname url) (search url) of
           Inl e \<Rightarrow> (Rejected e, w1)
         | Inr targetUrl \<Rightarrow>
        (case prepareHeaders env (in_headers req) None None of
           Inl e \<Rightarrow> (Rejected e, w1)
         | Inr headers \<Rightarrow>
             (let request = \<lparr> up_url = targetUrl,
                               up_method = in_method req,
                               up_headers = headers,
                               up_body_stream = createBodyStream,
                               up_has_body = in_has_body req \<rparr>;
                  w2 = add_logs
                         (if CF_DEBUG_TRAFFIC env then
                            [Log Info ''REQUEST DETAILS (no account):'',
                             Log Info (''URL: '' @ targetUrl),
                             Log Info (''Method: '' @ in_method req),
                             LogHeaders ''Headers:'' headers]
                          else []) w1;
                  w3 = w2\<lparr>sent := sent w2 @ [request]\<rparr>
              in case makeProxyRequest env request of
                   Inl error \<Rightarrow> unauthenticated_catch env error w3
                 | Inr response \<Rightarrow>
                     (let w4 = add_logs
                                 (if CF_DEBUG_TRAFFIC env then
                                    [Log Info ''RESPONSE DETAILS (no account):'',
                                     Log Info (''Status: '' @ show_nat (resp_status response)
                                                 @ '' '' @ resp_statusText response),
                                     LogHeaders ''Headers:'' (resp_headers response)]
                                  else []) w3;
                          handed = unauthenticated_forwarding req url requestMeta
                                     requestBodyBuffer response;
                          w5 = w4\<lparr>forwarded := forwarded w4 @ [handed]\<rparr>
                      in case forwardToClient env handed of
                           Inl error \<Rightarrow> unauthenticated_catch env error w5
                         | Inr returned \<Rightarrow> (returned, w5)))))"

subsection \<open>\<open>proxyWithAccount\<close>\<close>

text \<open>
  Lines 251-254. \<open>isMaxAccount\<close> is used for its truth value only.
  \<open>isClaudeCodeRequest\<close> is \<open>true\<close> when \<open>x-app\<close> is \<open>cli\<close>; otherwise it is the value of
  \<open>req.headers.get("user-agent")?.includes("claude-cli")\<close>, which is \<open>undefined\<close> (\<open>None\<close>)
  without a user agent.
\<close>

definition isMaxAccount :: "Account \<Rightarrow> bool" where
  "isMaxAccount account = (\<not> truthy (acct_api_key account) \<and> truthy (acct_refresh_token account))"

definition isClaudeCodeRequest :: "Request \<Rightarrow> bool option" where
  "isClaudeCodeRequest req =
     (if headers_get (in_headers req) ''x-app'' = Some ''cli'' then Some True
      else (case headers_get (in_headers req) ''user-agent'' of
              None \<Rightarrow> None
            | Some ua \<Rightarrow> Some (str_includes ua ''claude-cli'')))"

definition is_true :: "bool option \<Rightarrow> bool" where
  "is_true v = (v = Some True)"

definition show_flag :: "bool option \<Rightarrow> string" where
  "show_flag v = (case v of None \<Rightarrow> ''undefined'' | Some b \<Rightarrow> if b then ''true'' else ''false'')"

text \<open>Lines 248-299: what is logged before the token is asked for.\<close>

definition account_logs :: "Request \<Rightarrow> URL \<Rightarrow> Account \<Rightarrow> log_entry list" where
  "account_logs req url account =
     [Log Info (''Attempting request with account: '' @ acct_name account),
      Log Debug (''Account type: '' @
                   (if isMaxAccount account then ''Max (OAuth)'' else ''Console (API Key)'')),
      Log Debug (''Claude Code request: '' @ show_flag (isClaudeCodeRequest req)),
      Log Debug (''Request path: '' @ pathname url)]
     @ (if is_true (isClaudeCodeRequest req) \<and> isMaxAccount account \<and>
           startsWith (pathname url) ''/v1/''
        then
          [Log Warn ''Claude Code detected with Max account on standard API endpoint'',
           Log Info ''Max accounts use OAuth tokens which are not supported by standard API endpoints'',
           Log Info ''Unfortunately, Claude Code's internal OAuth endpoints are not publicly documented'',
           Log Info ''Options:'',
           Log Info ''1. Add a console mode account: bun run ccflare --add-account api-account --mode console'',
           Log Info ''2. Use Claude Code directly without proxy: unset ANTHROPIC_BASE_URL'',
           Log Info ''Forwarding request anyway to capture the actual API response...'']
        else [])"

text \<open>Lines 303-311: \<open>apiKey = account.api_key || undefined\<close> and the token log.\<close>

definition apiKey_of :: "Account \<Rightarrow> string option" where
  "apiKey_of account = (if truthy (acct_api_key account) then acct_api_key account else None)"

definition token_logs :: "Request \<Rightarrow> Account \<Rightarrow> string \<Rightarrow> log_entry list" where
  "token_logs req account accessToken_v =
     (if is_true (isClaudeCodeRequest req) \<and> isMaxAccount account then
        [Log Info ''Using Max account OAuth token for Claude Code request'',
         Log Info (''Access token: '' @
                     (if accessToken_v \<noteq> [] then ''Bearer '' @ take 10 accessToken_v @ ''...''
                      else ''empty'')),
         Log Info (''API key: '' @ (if truthy (apiKey_of account) then ''present'' else ''none''))]
      else [])"

text \<open>Lines 322-330: the debug log of the request.\<close>

definition request_logs :: "'s proxy_env \<Rightarrow> Request \<Rightarrow> Account \<Rightarrow> string \<Rightarrow> headers \<Rightarrow> log_entry list" where
  "request_logs env req account targetUrl headers =
     (if CF_DEBUG_TRAFFIC env then
        [Log Info ''REQUEST DETAILS (with account):'',
         Log Info (''URL: '' @ targetUrl),
         Log Info (''Method: '' @ in_method req),
         Log Info (''Account: '' @ acct_name account @ '' ('' @
                     (if truthy (acct_api_key account) then ''API Key'' else ''OAuth'') @ '')''),
         LogHeaders ''Headers:'' headers]
      else [])"

text \<open>
  Lines 340-360: what is logged about the response. For a 401 or 403 with a JSON content
  type the body is read and logged; a failure to read it is ignored.
\<close>

definition response_logs :: "'s proxy_env \<Rightarrow> Account \<Rightarrow> Response \<Rightarrow> log_entry list" where
  "response_logs env account response =
     (if CF_DEBUG_TRAFFIC env then
        [Log Info ''RESPONSE DETAILS:'',
         Log Info (''Status: '' @ show_nat (resp_status response) @ '' ''
                     @ resp_statusText response),
         LogHeaders ''Headers:'' (resp_headers response)]
      else [])
     @ [Log Info (''Response status: '' @ show_nat (resp_status response) @ '' for account: ''
                    @ acct_name account)]
     @ (if resp_status response = 401 \<or> resp_status response = 403 then
          (case headers_get (resp_headers response) ''content-type'' of
             None \<Rightarrow> []
           | Some errorHeader \<Rightarrow>
               if str_includes errorHeader ''json'' then
                 (case resp_text response of
                    Inl e \<Rightarrow> []
                  | Inr errorBody \<Rightarrow> [Log Warn (''Authentication error response: '' @ errorBody)])
               else [])
        else [])"

text \<open>Lines 369-384: the forwarding record of an attempt with an account.\<close>

definition account_forwarding ::
  "Request \<Rightarrow> URL \<Rightarrow> Account \<Rightarrow> RequestMeta \<Rightarrow> string option \<Rightarrow> nat \<Rightarrow> Response
     \<Rightarrow> forwarding" where
  "account_forwarding req url account requestMeta requestBodyBuffer failoverAttempts response =
     \<lparr> fw_requestId = meta_id requestMeta,
       fw_method = in_method req,
       fw_path = pathname url,
       fw_account = Some account,
       fw_requestHeaders = in_headers req,
       fw_requestBody = requestBodyBuffer,
       fw_response = response,
       fw_timestamp = meta_timestamp requestMeta,
       fw_retryAttempt = 0,
       fw_failoverAttempts = failoverAttempts,
       fw_agentUsed = meta_agentUsed requestMeta \<rparr>"

text \<open>
  The \<open>try\<close> block, lines 248-384: \<open>Inl e\<close> when \<open>e\<close> is thrown inside it (with the state
  reached by then); \<open>Inr None\<close> when it returns \<open>null\<close>; \<open>Inr (Some p)\<close> when it returns
  what \<open>forwardToClient\<close> returned, the promise \<open>p\<close>. It asks for the token, prepares the
  headers with the token and \<open>account.api_key || undefined\<close>, builds the URL, sends the
  request, and hands the response to the response processor.
\<close>

definition proxyWithAccount_try ::
  "'s proxy_env \<Rightarrow> Request \<Rightarrow> URL \<Rightarrow> Account \<Rightarrow> RequestMeta \<Rightarrow> string option \<Rightarrow> string option
     \<Rightarrow> nat \<Rightarrow> 's world \<Rightarrow> (thrown + Response promise option) \<times> 's world" where
  "proxyWithAccount_try env req url account requestMeta requestBodyBuffer createBodyStream
       failoverAttempts w0 =
     (let w1 = add_logs (account_logs req url account) w0
      in case getValidAccessToken env account (store w1) of
           (Inl e, s1) \<Rightarrow> (Inl e, w1\<lparr>store := s1\<rparr>)
         | (Inr accessToken_v, s1) \<Rightarrow>
        (let w2 = add_logs (token_logs req account accessToken_v) (w1\<lparr>store := s1\<rparr>)
         in case prepareHeaders env (in_headers req) (Some accessToken_v) (apiKey_of account) of
              Inl e \<Rightarrow> (Inl e, w2)
            | Inr headers \<Rightarrow>
           (case buildUrl env (pathname url) (search url) of
              Inl e \<Rightarrow> (Inl e, w2)
            | Inr targetUrl \<Rightarrow>
             (let request = \<lparr> up_url = targetUrl,
                               up_method = in_method req,
                               up_headers = headers,
                               up_body_stream = createBodyStream,
                               up_has_body = in_has_body req \<rparr>;
                  w3 = add_logs (request_logs env req account targetUrl headers) w2;
                  w4 = w3\<lparr>sent := sent w3 @ [request]\<rparr>
              in case makeProxyRequest env request of
                   Inl e \<Rightarrow> (Inl e, w4)
                 | Inr response \<Rightarrow>
                     (let w5 = add_logs (response_logs env account response) w4
                      in case processProxyResponse env response account (store w5) of
                           (Inl e, s2) \<Rightarrow> (Inl e, w5\<lparr>store := s2\<rparr>)
                         | (Inr isRateLimited, s2) \<Rightarrow>
                             if isRateLimited then (Inr None, w5\<lparr>store := s2\<rparr>)
                             else
                               (let record = account_forwarding req url account requestMeta
                                               requestBodyBuffer failoverAttempts response;
                                    w6 = w5\<lparr>store := s2,
                                            forwarded := forwarded w5 @ [record]\<rparr>
                                in case forwardToClient env record of
                                     Inl e \<Rightarrow> (Inl e, w6)
                                   | Inr returned \<Rightarrow> (Inr (Some returned), w6)))))))"

text \<open>
  The function: the \<open>try\<close> block, and the \<open>catch\<close> of lines 385-388, which hands the
  error to \<open>handleProxyError\<close> and returns \<open>null\<close>. A promise returned from the \<open>try\<close>
  block settles the function's promise after the block was left: its rejection does not
  reach the \<open>catch\<close>.
\<close>

definition proxyWithAccount ::
  "'s proxy_env \<Rightarrow> Request \<Rightarrow> URL \<Rightarrow> Account \<Rightarrow> RequestMeta \<Rightarrow> string option \<Rightarrow> string option
     \<Rightarrow> nat \<Rightarrow> 's world \<Rightarrow> Response option promise \<times> 's world" where
  "proxyWithAccount env req url account requestMeta requestBodyBuffer createBodyStream
       failoverAttempts w0 =
     (case proxyWithAccount_try env req url account requestMeta requestBodyBuffer
             createBodyStream failoverAttempts w0 of
        (Inl err, w) \<Rightarrow> (Resolved None, add_logs [HandleProxyError err account] w)
      | (Inr None, w) \<Rightarrow> (Resolved None, w)
      | (Inr (Some (Resolved response)), w) \<Rightarrow> (Resolved (Some response), w)
      | (Inr (Some (Rejected e)), w) \<Rightarrow> (Rejected e, w))"

section \<open>The specification's split of the code, and concrete inputs\<close>

text \<open>
  The split of the code as the specification words it: the code is the part before the
  first \<open>#\<close>, the state is the explicit \<open>stateParam\<close> when one is supplied and
  everything after the first \<open>#\<close> otherwise.
\<close>

definition spec_split :: "string \<Rightarrow> string option \<Rightarrow> string \<times> string" where
  "spec_split code stateParam =
     (takeWhile (\<lambda>c. c \<noteq> CHR ''#'') code,
      (case stateParam of
         Some s \<Rightarrow> s
       | None \<Rightarrow> drop 1 (dropWhile (\<lambda>c. c \<noteq> CHR ''#'') code)))"

text \<open>
  A provider configuration, token-endpoint responses and a token endpoint that answers
  every request with the given response. \<open>example_parse\<close> is \<open>JSON.parse\<close> on the error
  bodies used below: four JSON objects, and an HTML page, on which it throws. A failure
  response is never asked for its \<open>json()\<close>.
\<close>

definition example_config :: OAuthProviderConfig where
  "example_config =
     \<lparr> authorizeUrl = ''https://console.anthropic.com/oauth/authorize'',
       tokenUrl = ''https://console.anthropic.com/v1/oauth/token'',
       clientId = ''client-1'',
       scopes = [''org:create_api_key'', ''user:profile'', ''user:inference''],
       redirectUri = ''https://console.anthropic.com/oauth/code/callback'',
       cfg_mode = Console \<rparr>"

definition token_body :: string where
  \<open>token_body = ''{"access_token":"T","refresh_token":"R","expires_in":3600}''\<close>

definition body_error_description :: string where
  \<open>body_error_description =
     ''{"error":"invalid_grant","error_description":"Code expired"}''\<close>

definition body_nested_error :: string where
  \<open>body_nested_error =
     ''{"type":"error","error":{"type":"invalid_request_error","message":"Invalid code"}}''\<close>

definition body_error :: string where
  \<open>body_error = ''{"error":"invalid_grant"}''\<close>

definition body_empty_object :: string where
  "body_empty_object = ''{}''"


definition example_success :: token_response where
  "example_success =
     \<lparr> rs_status = 200, rs_statusText = ''OK'', rs_text = Inr token_body,
       rs_json = Inr \<lparr> refresh_token = ''R'', access_token = ''T'', expires_in = 3600 \<rparr> \<rparr>"


definition example_parse :: "string \<Rightarrow> json option" where
  "example_parse txt =
     (if txt = body_empty_object then Some (JObj [])
      else if txt = body_error then Some (JObj [(''error'', JStr ''invalid_grant'')])
      else if txt = body_error_description then
        Some (JObj [(''error'', JStr ''invalid_grant''),
                    (''error_description'', JStr ''Code expired'')])
      else if txt = body_nested_error then
        Some (JObj [(''type'', JStr ''error''),
                    (''error'', JObj [(''type'', JStr ''invalid_request_error''),
                                      (''message'', JStr ''Invalid code'')])])
      else None)"

definition example_env :: "token_response \<Rightarrow> exchange_env" where
  "example_env r = \<lparr> fetch = (\<lambda>rq. Inr r), JSON_parse = example_parse, Date_now = 1700000000000 \<rparr>"

text \<open>
  An OAuth-only account, a request of the CLI client to \<open>/v1/messages\<close>, and
  collaborators that answer with the given token, upstream response, rate-limit
  classification and forwarding. The provider builds the URL and adds the credentials it
  is given to the headers; the store counts the responses processed. A forwarding
  collaborator may deliver the upstream response, return a promise that rejects, or
  throw at once.
\<close>

definition example_account :: Account where
  "example_account =
     \<lparr> acct_name = ''max-1'', acct_api_key = None, acct_refresh_token = Some ''refresh-1'' \<rparr>"

definition example_request :: Request where
  "example_request =
     \<lparr> in_method = ''POST'',
       in_headers = [(''x-app'', ''cli''), (''user-agent'', ''claude-cli/1.0.30'')],
       in_has_body = True \<rparr>"

definition example_url :: URL where
  "example_url = \<lparr> pathname = ''/v1/messages'', search = ''?beta=true'' \<rparr>"

definition example_meta :: RequestMeta where
  "example_meta =
     \<lparr> meta_id = ''req-1'', meta_timestamp = 1700000000000, meta_agentUsed = Some ''agent-7'' \<rparr>"

definition example_upstream :: "nat \<Rightarrow> Response" where
  "example_upstream st =
     \<lparr> resp_status = st, resp_statusText = [],
       resp_headers = [(''content-type'', ''application/json'')],
       resp_text = Inr ''{}'' \<rparr>"

definition forward_delivers :: "forwarding \<Rightarrow> thrown + Response promise" where
  "forward_delivers record = Inr (Resolved (fw_response record))"

definition forward_rejects :: "forwarding \<Rightarrow> thrown + Response promise" where
  "forward_rejects record = Inr (Rejected (JsError ''usage worker terminated''))"

definition forward_throws :: "forwarding \<Rightarrow> thrown + Response promise" where
  "forward_throws record = Inl (JsError ''cannot clone response'')"

definition example_proxy_env ::
  "thrown + string \<Rightarrow> thrown + Response \<Rightarrow> thrown + bool
     \<Rightarrow> (forwarding \<Rightarrow> thrown + Response promise) \<Rightarrow> nat proxy_env" where
  "example_proxy_env token upstream limited forwarding_f =
     \<lparr> getValidAccessToken = (\<lambda>account s. (token, s)),
       prepareHeaders =
         (\<lambda>h t k. Inr (h @ (case t of None \<Rightarrow> []
                                 | Some v \<Rightarrow> [(''authorization'', ''Bearer '' @ v)])
                         @ (case k of None \<Rightarrow> [] | Some v \<Rightarrow> [(''x-api-key'', v)]))),
       buildUrl = (\<lambda>path query. Inr (''https://api.anthropic.com'' @ path @ query)),
       provider_name = ''anthropic'',
       makeProxyRequest = (\<lambda>request. upstream),
       processProxyResponse = (\<lambda>response account s. (limited, Suc s)),
       forwardToClient = forwarding_f,
       CF_DEBUG_TRAFFIC = False,
       NO_ACCOUNTS = ''No active accounts available - forwarding request without authentication'',
       UNAUTHENTICATED_FAILED = ''Failed to forward unauthenticated request'' \<rparr>"

definition example_world :: "nat world" where
  "example_world = \<lparr> store = 0, logs = [], sent = [], forwarded = [] \<rparr>"

text \<open>A table of three sessions: one expired at 500000, two alive until 900000 and 601000.\<close>

definition example_table :: oauth_sessions where
  "example_table =
     [\<lparr> row_id = ''s0'', row_account_name = ''old'', row_verifier = ''v0'', row_mode = Console,
        row_tier = 1, row_created_at = 100, row_expires_at = 500000, row_state = None \<rparr>,
      \<lparr> row_id = ''s1'', row_account_name = ''work'', row_verifier = ''v1'', row_mode = Max,
        row_tier = 5, row_created_at = 300000, row_expires_at = 900000,
        row_state = Some ''st'' \<rparr>,
      \<lparr> row_id = ''s2'', row_account_name = ''home'', row_verifier = ''v2'', row_mode = Max,
        row_tier = 20, row_created_at = 1000, row_expires_at = 601000, row_state = None \<rparr>]"

section \<open>Properties of \<open>exchangeCode\<close>\<close>


lemma split_on_first: "\<exists>rest. split_on c s = takeWhile (\<lambda>x. x \<noteq> c) s # rest"
  by (induction s) (auto split: list.splits)

lemma split_on_second:
  "c \<in> set s \<Longrightarrow>
     \<exists>more. split_on c s =
        takeWhile (\<lambda>x. x \<noteq> c) s #
        takeWhile (\<lambda>x. x \<noteq> c) (drop 1 (dropWhile (\<lambda>x. x \<noteq> c) s)) # more"
proof (induction s)
  case Nil
  then show ?case by simp
next
  case (Cons x xs)
  show ?case
  proof (cases "x = c")
    case True
    obtain rest where "split_on c xs = takeWhile (\<lambda>x. x \<noteq> c) xs # rest"
      using split_on_first by blast
    with True show ?thesis by simp
  next
    case False
    with Cons.prems have "c \<in> set xs" by simp
    from Cons.IH [OF this] False show ?thesis by auto
  qed
qed

lemma split_code_eq:
  "split_code code =
     (takeWhile (\<lambda>x. x \<noteq> CHR ''#'') code,
      takeWhile (\<lambda>x. x \<noteq> CHR ''#'') (drop 1 (dropWhile (\<lambda>x. x \<noteq> CHR ''#'') code)))"
proof (cases "CHR ''#'' \<in> set code")
  case True
  from split_on_second [OF True] obtain more where
    "split_on (CHR ''#'') code =
       takeWhile (\<lambda>x. x \<noteq> CHR ''#'') code #
       takeWhile (\<lambda>x. x \<noteq> CHR ''#'') (drop 1 (dropWhile (\<lambda>x. x \<noteq> CHR ''#'') code)) # more"
    by blast
  with True show ?thesis by (simp add: split_code_def)
next
  case False
  have tw: "takeWhile (\<lambda>x. x \<noteq> CHR ''#'') code = code"
    using False by (induction code) auto
  have dw: "dropWhile (\<lambda>x. x \<noteq> CHR ''#'') code = []"
    using False by (induction code) auto
  show ?thesis by (simp add: split_code_def False tw dw)
qed

lemma exchangeCode_sends_once:
  "snd (exchangeCode env code verifier config stateParam) =
     [token_request_of code verifier config stateParam]"
  by (simp add: exchangeCode_def Let_def split: sum.splits)

lemma body_field_code:
  "body_field ''code'' (token_request_of code verifier config stateParam) =
     Some (fst (split_code code))"
  by (simp add: body_field_def token_request_of_def Let_def)

lemma body_field_state:
  "body_field ''state'' (token_request_of code verifier config stateParam) =
     Some (or_else stateParam (snd (split_code code)))"
  by (simp add: body_field_def token_request_of_def Let_def)

lemma takeWhile_upto_sep:
  "c \<notin> set l \<Longrightarrow> takeWhile (\<lambda>x. x \<noteq> c) (l @ c # r) = l"
  by (induction l) auto

lemma dropWhile_upto_sep:
  "c \<notin> set l \<Longrightarrow> dropWhile (\<lambda>x. x \<noteq> c) (l @ c # r) = c # r"
  by (induction l) auto

lemma takeWhile_no_sep:
  "c \<notin> set r \<Longrightarrow> takeWhile (\<lambda>x. x \<noteq> c) r = r"
  by (induction r) auto

text \<open>
  Claim C3, as amended. \<open>exchangeCode\<close> sends one request. Its \<open>code\<close> is the part of
  the input before the first \<open>#\<close> (the whole input when there is none). Its \<open>state\<close> is
  the explicit \<open>stateParam\<close> when that is supplied and not empty, and otherwise the
  fallback state: the part of the input between the first \<open>#\<close> and the next one (or
  the end), empty when the input has no \<open>#\<close>. For an input with exactly one \<open>#\<close> the
  fallback state is everything after it.
\<close>

theorem exchangeCode_code_and_state:
  "map (body_field ''code'') (snd (exchangeCode env code verifier config stateParam))
     = [Some (takeWhile (\<lambda>c. c \<noteq> CHR ''#'') code)]
   \<and> map (body_field ''state'') (snd (exchangeCode env code verifier config stateParam))
     = [Some (or_else stateParam
                (takeWhile (\<lambda>c. c \<noteq> CHR ''#'')
                   (drop 1 (dropWhile (\<lambda>c. c \<noteq> CHR ''#'') code))))]
   \<and> (CHR ''#'' \<notin> set code \<longrightarrow>
         map (body_field ''code'') (snd (exchangeCode env code verifier config stateParam))
           = [Some code] \<and>
         map (body_field ''state'') (snd (exchangeCode env code verifier config stateParam))
           = [Some (or_else stateParam [])])
   \<and> (\<forall>l r. code = l @ CHR ''#'' # r \<and> CHR ''#'' \<notin> set l \<and> CHR ''#'' \<notin> set r \<longrightarrow>
         map (body_field ''code'') (snd (exchangeCode env code verifier config stateParam))
           = [Some l] \<and>
         map (body_field ''state'') (snd (exchangeCode env code verifier config stateParam))
           = [Some (or_else stateParam r)])
   \<and> (\<forall>s. stateParam = Some s \<and> s \<noteq> [] \<longrightarrow>
         map (body_field ''state'') (snd (exchangeCode env code verifier config stateParam))
           = [Some s])"
proof -
  let ?rq = "token_request_of code verifier config stateParam"
  let ?P = "\<lambda>c. c \<noteq> CHR ''#''"
  have sent: "snd (exchangeCode env code verifier config stateParam) = [?rq]"
    by (rule exchangeCode_sends_once)
  have c: "body_field ''code'' ?rq = Some (takeWhile ?P code)"
    by (simp add: body_field_code split_code_eq)
  have s: "body_field ''state'' ?rq =
             Some (or_else stateParam (takeWhile ?P (drop 1 (dropWhile ?P code))))"
    by (simp add: body_field_state split_code_eq)
  have none: "CHR ''#'' \<notin> set code \<Longrightarrow>
      body_field ''code'' ?rq = Some code \<and> body_field ''state'' ?rq = Some (or_else stateParam [])"
    by (simp add: body_field_code body_field_state split_code_def)
  have one: "body_field ''code'' ?rq = Some l \<and> body_field ''state'' ?rq = Some (or_else stateParam r)"
    if "code = l @ CHR ''#'' # r" "CHR ''#'' \<notin> set l" "CHR ''#'' \<notin> set r" for l r
  proof -
    have t1: "takeWhile ?P code = l"
      using that by (simp add: takeWhile_upto_sep)
    have t2: "dropWhile ?P code = CHR ''#'' # r"
      using that by (simp add: dropWhile_upto_sep)
    have t3: "takeWhile ?P r = r"
      using that(3) by (rule takeWhile_no_sep)
    show ?thesis by (simp add: c s t1 t2 t3)
  qed
  have explicit: "body_field ''state'' ?rq = Some st" if "stateParam = Some st" "st \<noteq> []" for st
    using that by (simp add: body_field_state or_else_def)
  show ?thesis
    unfolding sent using c s none one explicit by simp
qed

theorem exchangeCode_code_and_state_witness:
  "map (body_field ''code'')
     (snd (exchangeCode (example_env example_success)
             ''abc123#stateXYZ'' ''ver'' example_config None)) = [Some ''abc123'']
   \<and> map (body_field ''state'')
     (snd (exchangeCode (example_env example_success)
             ''abc123#stateXYZ'' ''ver'' example_config None)) = [Some ''stateXYZ'']
   \<and> map (body_field ''state'')
     (snd (exchangeCode (example_env example_success)
             ''abc123'' ''ver'' example_config None)) = [Some []]"
proof -
  note a = exchangeCode_code_and_state
         [of "example_env example_success" "''abc123#stateXYZ''"
             "''ver''" example_config None]
  note b = exchangeCode_code_and_state
         [of "example_env example_success" "''abc123''"
             "''ver''" example_config None]
  have 1: "map (body_field ''code'')
     (snd (exchangeCode (example_env example_success)
             ''abc123#stateXYZ'' ''ver'' example_config None)) = [Some ''abc123'']"
    using a [THEN conjunct1] by simp
  have 2: "map (body_field ''state'')
     (snd (exchangeCode (example_env example_success)
             ''abc123#stateXYZ'' ''ver'' example_config None)) = [Some ''stateXYZ'']"
    using a [THEN conjunct2, THEN conjunct1] by (simp add: or_else_def)
  have 3: "map (body_field ''state'')
     (snd (exchangeCode (example_env example_success)
             ''abc123'' ''ver'' example_config None)) = [Some []]"
    using b [THEN conjunct2, THEN conjunct1] by (simp add: or_else_def)
  show ?thesis using 1 2 3 by simp
qed

text \<open>
  The code \<open>abc#st#xyz\<close> is sent with the state \<open>st\<close>, not with \<open>st#xyz\<close>, which is
  everything after the first \<open>#\<close>; and an explicit empty \<open>stateParam\<close> does not replace
  the extracted state. \<open>spec_split\<close> is the split as the specification words it.
\<close>

theorem exchangeCode_state_counterexample:
  "map (\<lambda>rq. (body_field ''code'' rq, body_field ''state'' rq))
       (snd (exchangeCode (example_env example_success)
               ''abc#st#xyz'' ''ver'' example_config None))
     = [(Some ''abc'', Some ''st'')]
   \<and> spec_split ''abc#st#xyz'' None = (''abc'', ''st#xyz'')
   \<and> map (body_field ''state'')
       (snd (exchangeCode (example_env example_success)
               ''abc#st'' ''ver'' example_config (Some [])))
     = [Some ''st'']
   \<and> spec_split ''abc#st'' (Some []) = (''abc'', [])"
  by (simp add: exchangeCode_sends_once body_field_code body_field_state split_code_def
        or_else_def spec_split_def)

text \<open>
  Claim C8, as amended. Every call sends one request: a \<open>POST\<close> to the token URL whose
  body has exactly the properties \<open>grant_type\<close> (\<open>authorization_code\<close>), \<open>code\<close>,
  \<open>redirect_uri\<close>, \<open>client_id\<close>, \<open>code_verifier\<close> and \<open>state\<close>, and whose headers are
  \<open>Content-Type\<close>, \<open>Accept\<close> and a third one, \<open>User-Agent: axios/1.8.4\<close>.
\<close>

theorem exchangeCode_wire_contract:
  "map rq_url (snd (exchangeCode env code verifier config stateParam)) = [tokenUrl config]
   \<and> map rq_method (snd (exchangeCode env code verifier config stateParam)) = [''POST'']
   \<and> map (\<lambda>rq. map fst (rq_body rq)) (snd (exchangeCode env code verifier config stateParam))
       = [[''grant_type'', ''code'', ''redirect_uri'', ''client_id'', ''code_verifier'', ''state'']]
   \<and> map (body_field ''grant_type'') (snd (exchangeCode env code verifier config stateParam))
       = [Some ''authorization_code'']
   \<and> map (body_field ''redirect_uri'') (snd (exchangeCode env code verifier config stateParam))
       = [Some (redirectUri config)]
   \<and> map (body_field ''client_id'') (snd (exchangeCode env code verifier config stateParam))
       = [Some (clientId config)]
   \<and> map (body_field ''code_verifier'') (snd (exchangeCode env code verifier config stateParam))
       = [Some verifier]
   \<and> map rq_headers (snd (exchangeCode env code verifier config stateParam))
       = [[(''Content-Type'', ''application/json''),
           (''Accept'', ''application/json, text/plain, */*''),
           (''User-Agent'', ''axios/1.8.4'')]]"
  unfolding exchangeCode_sends_once
  by (simp add: token_request_of_def body_field_def Let_def)

text \<open>
  The headers of the request are not the two of the wire contract alone: the request
  carries \<open>User-Agent: axios/1.8.4\<close> as well.
\<close>

theorem exchangeCode_headers_counterexample:
  "map rq_headers
       (snd (exchangeCode (example_env example_success)
               ''abc123'' ''ver'' example_config None))
     \<noteq> [[(''Content-Type'', ''application/json''),
          (''Accept'', ''application/json, text/plain, */*'')]]
   \<and> map (\<lambda>rq. map_of (rq_headers rq) ''User-Agent'')
       (snd (exchangeCode (example_env example_success)
               ''abc123'' ''ver'' example_config None))
     = [Some ''axios/1.8.4'']"
  unfolding exchangeCode_sends_once
  by (simp add: token_request_of_def Let_def)

theorem exchangeCode_wire_contract_witness:
  "map rq_url
     (snd (exchangeCode (example_env example_success)
             ''abc123#stateXYZ'' ''ver'' example_config None))
       = [''https://console.anthropic.com/v1/oauth/token'']
   \<and> map rq_method
     (snd (exchangeCode (example_env example_success)
             ''abc123#stateXYZ'' ''ver'' example_config None)) = [''POST'']"
proof -
  note a = exchangeCode_wire_contract
         [of "example_env example_success" "''abc123#stateXYZ''"
             "''ver''" example_config None]
  have 1: "map rq_url
     (snd (exchangeCode (example_env example_success)
             ''abc123#stateXYZ'' ''ver'' example_config None))
       = [''https://console.anthropic.com/v1/oauth/token'']"
    using a [THEN conjunct1] by (simp add: example_config_def)
  have 2: "map rq_method
     (snd (exchangeCode (example_env example_success)
             ''abc123#stateXYZ'' ''ver'' example_config None)) = [''POST'']"
    using a [THEN conjunct2, THEN conjunct1] by simp
  show ?thesis using 1 2 by simp
qed

text \<open>
  Claim C10. An empty \<open>stateParam\<close> is treated as an absent one: the call behaves as
  without it, and the state sent is the fallback state extracted from the code.
\<close>

theorem exchangeCode_empty_stateParam:
  "exchangeCode env code verifier config (Some []) = exchangeCode env code verifier config None
   \<and> map (body_field ''state'') (snd (exchangeCode env code verifier config (Some [])))
       = [Some (snd (split_code code))]"
proof -
  have "token_request_of code verifier config (Some []) = token_request_of code verifier config None"
    by (simp add: token_request_of_def or_else_def)
  then have "exchangeCode env code verifier config (Some []) = exchangeCode env code verifier config None"
    by (simp add: exchangeCode_def)
  moreover have "map (body_field ''state'') (snd (exchangeCode env code verifier config (Some [])))
       = [Some (snd (split_code code))]"
    by (simp add: exchangeCode_sends_once body_field_state or_else_def)
  ultimately show ?thesis by simp
qed

theorem exchangeCode_empty_stateParam_witness:
  "map (body_field ''state'')
     (snd (exchangeCode (example_env example_success)
             ''abc123#stateXYZ'' ''ver'' example_config (Some [])))
     = [Some ''stateXYZ'']"
proof -
  have "snd (split_code ''abc123#stateXYZ'') = ''stateXYZ''"
    by (simp add: split_code_def)
  with exchangeCode_empty_stateParam
          [of "example_env example_success" "''abc123#stateXYZ''"
              "''ver''" example_config, THEN conjunct2]
  show ?thesis by simp
qed

lemma sig_shift_small: "m < 2 ^ 53 \<Longrightarrow> sig_shift m = 0"
  by (subst sig_shift.simps) simp

lemma round_nat_small: "m < 2 ^ 53 \<Longrightarrow> round_nat m = m"
  by (simp add: round_nat_def Let_def sig_shift_small)

lemma js_round_exact: "\<bar>n\<bar> < 2 ^ 53 \<Longrightarrow> js_round n = n"
proof (cases "n < 0")
  case True
  assume "\<bar>n\<bar> < 2 ^ 53"
  with True have "nat (- n) < 2 ^ 53" by (simp add: nat_less_iff)
  then have "round_nat (nat (- n)) = nat (- n)" by (rule round_nat_small)
  with True show ?thesis by (simp add: js_round_def)
next
  case False
  assume "\<bar>n\<bar> < 2 ^ 53"
  with False have "nat n < 2 ^ 53" by (simp add: nat_less_iff)
  then have "round_nat (nat n) = nat n" by (rule round_nat_small)
  with False show ?thesis by (simp add: js_round_def)
qed

lemma js_round_above_2_53:
  "js_mul 9007199254740991 1000 = 9007199254740990976
   \<and> js_add 1700000000000 (js_mul 9007199254740991 1000) = 9007200954740990976"
  by (simp add: js_mul_def js_add_def js_round_def round_nat_def Let_def sig_shift.simps)

lemma js_round_ties:
  "js_round 9007199254740993 = 9007199254740992
   \<and> js_round 9007199254740995 = 9007199254740996
   \<and> js_round (- 9007199254740995) = - 9007199254740996"
  by (simp add: js_round_def round_nat_def Let_def sig_shift.simps)

lemma js_mul_exact: "\<bar>a * b\<bar> < 2 ^ 53 \<Longrightarrow> js_mul a b = a * b"
  by (simp add: js_mul_def js_round_exact)

lemma js_add_exact: "\<bar>a + b\<bar> < 2 ^ 53 \<Longrightarrow> js_add a b = a + b"
  by (simp add: js_add_def js_round_exact)

lemma exchangeCode_on_response:
  "fetch env (token_request_of code verifier config stateParam) = Inr response \<Longrightarrow>
   fst (exchangeCode env code verifier config stateParam) =
     (if \<not> rs_ok response then Rejected (exchange_error env response)
      else (case rs_json response of
              Inl e \<Rightarrow> Rejected e
            | Inr json \<Rightarrow>
                Resolved \<lparr> refreshToken = refresh_token json,
                           accessToken = access_token json,
                           expiresAt =
                             js_add (Date_now env) (js_mul (expires_in json) 1000) \<rparr>))"
  by (simp add: exchangeCode_def Let_def split: sum.splits)

text \<open>
  Claim C6. A successful response whose payload is \<open>{access_token, refresh_token, expires_in}\<close>
  gives a \<open>TokenResult\<close> with the two tokens of the payload. Its \<open>expiresAt\<close> is
  \<open>Date.now() + expires_in * 1000\<close> as doubles compute it; where the product and the sum
  are below \<open>2^53\<close> in absolute value, doubles are exact and \<open>expiresAt\<close> is the integer
  \<open>now + expires_in * 1000\<close>. For \<open>expires_in = 3600\<close> it is within one second of
  \<open>now + 3600000\<close>.
\<close>

theorem exchangeCode_success:
  assumes "fetch env (token_request_of code verifier config stateParam) = Inr response"
    and "rs_ok response"
    and "rs_json response = Inr payload"
  shows "fst (exchangeCode env code verifier config stateParam) =
           Resolved \<lparr> refreshToken = refresh_token payload,
                      accessToken = access_token payload,
                      expiresAt = js_add (Date_now env) (js_mul (expires_in payload) 1000) \<rparr>
         \<and> (\<bar>expires_in payload * 1000\<bar> < 2 ^ 53
              \<and> \<bar>Date_now env + expires_in payload * 1000\<bar> < 2 ^ 53 \<longrightarrow>
              fst (exchangeCode env code verifier config stateParam) =
                Resolved \<lparr> refreshToken = refresh_token payload,
                           accessToken = access_token payload,
                           expiresAt = Date_now env + expires_in payload * 1000 \<rparr>)
         \<and> (expires_in payload = 3600 \<and> \<bar>Date_now env + 3600000\<bar> < 2 ^ 53 \<longrightarrow>
              (\<exists>t. fst (exchangeCode env code verifier config stateParam) = Resolved t
                 \<and> accessToken t = access_token payload
                 \<and> \<bar>expiresAt t - (Date_now env + 3600000)\<bar> \<le> 1000))"
proof -
  have r: "fst (exchangeCode env code verifier config stateParam) =
           Resolved \<lparr> refreshToken = refresh_token payload,
                      accessToken = access_token payload,
                      expiresAt = js_add (Date_now env) (js_mul (expires_in payload) 1000) \<rparr>"
    using assms by (simp add: exchangeCode_on_response)
  have exact: "js_add (Date_now env) (js_mul (expires_in payload) 1000)
                 = Date_now env + expires_in payload * 1000"
    if "\<bar>expires_in payload * 1000\<bar> < 2 ^ 53"
       "\<bar>Date_now env + expires_in payload * 1000\<bar> < 2 ^ 53"
    using that by (simp add: js_mul_exact js_add_exact)
  have hour: "js_add (Date_now env) (js_mul (expires_in payload) 1000) = Date_now env + 3600000"
    if "expires_in payload = 3600" "\<bar>Date_now env + 3600000\<bar> < 2 ^ 53"
    using that by (simp add: js_mul_exact js_add_exact)
  show ?thesis
    using r exact hour by auto
qed

theorem exchangeCode_success_witness:
  "fst (exchangeCode (example_env example_success)
          ''abc123#stateXYZ'' ''ver'' example_config None)
     = Resolved \<lparr> refreshToken = ''R'', accessToken = ''T'', expiresAt = 1700003600000 \<rparr>
   \<and> fst (exchangeCode
            (example_env
               \<lparr> rs_status = 201, rs_statusText = ''Created'', rs_text = Inr token_body,
                 rs_json = Inr \<lparr> refresh_token = ''R2'', access_token = ''T2'',
                                 expires_in = 9007199254740991 \<rparr> \<rparr>)
            ''abc123'' ''ver2'' example_config (Some ''st''))
     = Resolved \<lparr> refreshToken = ''R2'', accessToken = ''T2'',
                  expiresAt = 9007200954740990976 \<rparr>"
proof -
  let ?r = "example_success"
  let ?p = "\<lparr> refresh_token = ''R'', access_token = ''T'', expires_in = 3600 \<rparr>"
  let ?p2 = "\<lparr> refresh_token = ''R2'', access_token = ''T2'',
               expires_in = 9007199254740991 \<rparr>"
  let ?r2 = "\<lparr> rs_status = 201, rs_statusText = ''Created'', rs_text = Inr token_body,
               rs_json = Inr ?p2 \<rparr>"
  have f: "fetch (example_env ?r)
             (token_request_of ''abc123#stateXYZ'' ''ver'' example_config None) = Inr ?r"
    by (simp add: example_env_def)
  have ok: "rs_ok ?r"
    by (simp add: rs_ok_def example_success_def)
  have j: "rs_json ?r = Inr ?p"
    by (simp add: example_success_def)
  have b: "\<bar>expires_in ?p * 1000\<bar> < 2 ^ 53
            \<and> \<bar>Date_now (example_env ?r) + expires_in ?p * 1000\<bar> < 2 ^ 53"
    by (simp add: example_env_def)
  have f2: "fetch (example_env ?r2)
              (token_request_of ''abc123'' ''ver2'' example_config (Some ''st'')) = Inr ?r2"
    by (simp add: example_env_def)
  have ok2: "rs_ok ?r2"
    by (simp add: rs_ok_def)
  have j2: "rs_json ?r2 = Inr ?p2"
    by simp
  have big: "js_add (Date_now (example_env ?r2)) (js_mul (expires_in ?p2) 1000)
               = 9007200954740990976"
    using js_round_above_2_53 [THEN conjunct2] by (simp add: example_env_def)
  from exchangeCode_success [OF f ok j, THEN conjunct2, THEN conjunct1, rule_format, OF b]
  have 1: "fst (exchangeCode (example_env example_success)
                  ''abc123#stateXYZ'' ''ver'' example_config None)
             = Resolved \<lparr> refreshToken = ''R'', accessToken = ''T'',
                          expiresAt = 1700003600000 \<rparr>"
    by (simp add: example_env_def)
  from exchangeCode_success [OF f2 ok2 j2, THEN conjunct1, unfolded big]
  have 2: "fst (exchangeCode (example_env ?r2) ''abc123'' ''ver2'' example_config (Some ''st''))
             = Resolved \<lparr> refreshToken = ''R2'', accessToken = ''T2'',
                          expiresAt = 9007200954740990976 \<rparr>"
    by simp
  show ?thesis by (rule conjI [OF 1 2])
qed





section \<open>Properties of the session store\<close>

lemma find_append_none:
  "find P xs = None \<Longrightarrow> find P (xs @ ys) = find P ys"
  by (induction xs) (auto split: if_splits)

lemma find_no_id:
  "sid \<notin> set (map row_id db) \<Longrightarrow> find (\<lambda>r. row_id r = sid \<and> Q r) db = None"
  by (induction db) auto

lemma find_by_id:
  "distinct (map row_id rows) \<Longrightarrow> row \<in> set rows \<Longrightarrow>
   find (\<lambda>r. row_id r = row_id row \<and> Q r) rows = (if Q row then Some row else None)"
proof (induction rows)
  case Nil
  then show ?case by simp
next
  case (Cons x xs)
  show ?case
  proof (cases "x = row")
    case True
    with Cons.prems have "row_id row \<notin> set (map row_id xs)" by simp
    then have "find (\<lambda>r. row_id r = row_id row \<and> Q r) xs = None" by (rule find_no_id)
    with True show ?thesis by simp
  next
    case False
    with Cons.prems have in_xs: "row \<in> set xs" and d: "distinct (map row_id xs)"
      and "row_id x \<notin> set (map row_id xs)"
      by auto
    then have "row_id x \<noteq> row_id row" by force
    with Cons.IH [OF d in_xs] show ?thesis by simp
  qed
qed

lemma getSession_general:
  "distinct (map row_id rows) \<Longrightarrow> row \<in> set rows \<Longrightarrow>
   getSession rows t (row_id row) =
     (if t < row_expires_at row
      then Some \<lparr> ses_accountName = row_account_name row,
                  ses_verifier = row_verifier row,
                  ses_state = row_state row,
                  ses_mode = row_mode row,
                  ses_tier = row_tier row \<rparr>
      else None)"
  by (simp add: getSession_def find_by_id)

lemma getSession_unknown:
  "sid \<notin> set (map row_id rows) \<Longrightarrow> getSession rows t sid = None"
  by (simp add: getSession_def find_no_id)

lemma getSession_only_unexpired:
  "getSession rows t sid = Some s \<Longrightarrow> \<exists>r \<in> set rows. row_id r = sid \<and> t < row_expires_at r"
  by (auto simp: getSession_def find_Some_iff split: option.splits)

lemma createSession_row:
  assumes "createSession db now sessionId accountName verifier mode tier ttlMinutes state = Inr db'"
  shows "sessionId \<notin> set (map row_id db)"
    and "db' = db @ [\<lparr> row_id = sessionId,
                       row_account_name = accountName,
                       row_verifier = verifier,
                       row_mode = mode,
                       row_tier = tier,
                       row_created_at = now,
                       row_expires_at =
                         js_add now
                           (js_mul (js_mul (case ttlMinutes of None \<Rightarrow> 10 | Some m \<Rightarrow> m) 60)
                              1000),
                       row_state = (if truthy state then state else None) \<rparr>]"
  using assms by (auto simp: createSession_def Let_def split: if_splits)

lemma expiry_exact:
  "\<bar>ttl * 60\<bar> < 2 ^ 53 \<Longrightarrow> \<bar>ttl * 60 * 1000\<bar> < 2 ^ 53 \<Longrightarrow> \<bar>now + ttl * 60 * 1000\<bar> < 2 ^ 53 \<Longrightarrow>
   js_add now (js_mul (js_mul ttl 60) 1000) = now + ttl * 60 * 1000"
  by (simp add: js_mul_exact js_add_exact)

text \<open>
  Claim C5. In a table whose ids are distinct, \<open>getSession\<close> returns the session of an id
  exactly when the table has a row of that id whose \<open>expires_at\<close> is after the time of the
  read, wherever the row stands in the table. A session created at \<open>now\<close> with
  \<open>ttlMinutes\<close> (ten when absent) expires at \<open>now + ttlMinutes * 60 * 1000\<close>, the numbers
  being below \<open>2^53\<close>, where doubles are exact: it is returned at every time before that,
  one millisecond before it in particular, and is absent from that time on, one
  millisecond after it in particular, although its row is still in the table. The rows
  that were there before are read as before.
\<close>

theorem getSession_expiry:
  assumes "distinct (map row_id db)"
    and "createSession db now sessionId accountName verifier mode tier ttlMinutes state = Inr db'"
    and "ttl = (case ttlMinutes of None \<Rightarrow> 10 | Some m \<Rightarrow> m)"
    and "\<bar>ttl * 60\<bar> < 2 ^ 53" and "\<bar>ttl * 60 * 1000\<bar> < 2 ^ 53"
    and "\<bar>now + ttl * 60 * 1000\<bar> < 2 ^ 53"
    and "expires = now + ttl * 60 * 1000"
    and "session = \<lparr> ses_accountName = accountName,
                      ses_verifier = verifier,
                      ses_state = (if truthy state then state else None),
                      ses_mode = mode,
                      ses_tier = tier \<rparr>"
  shows "(getSession db' t sessionId = Some session) = (t < expires)
       \<and> (\<not> t < expires \<longrightarrow> getSession db' t sessionId = None)
       \<and> getSession db' (expires - 1) sessionId = Some session
       \<and> getSession db' (expires + 1) sessionId = None
       \<and> (ttlMinutes = None \<longrightarrow> expires = now + 600000)
       \<and> (\<exists>row \<in> set db'. row_id row = sessionId \<and> row_created_at row = now
             \<and> row_expires_at row = expires)
       \<and> distinct (map row_id db')
       \<and> (\<forall>row \<in> set db. getSession db' t (row_id row) = getSession db t (row_id row))
       \<and> (\<forall>rows row. distinct (map row_id rows) \<and> row \<in> set rows \<longrightarrow>
             getSession rows t (row_id row) =
               (if t < row_expires_at row
                then Some \<lparr> ses_accountName = row_account_name row,
                            ses_verifier = row_verifier row,
                            ses_state = row_state row,
                            ses_mode = row_mode row,
                            ses_tier = row_tier row \<rparr>
                else None))
       \<and> (\<forall>rows sid. sid \<notin> set (map row_id rows) \<longrightarrow> getSession rows t sid = None)
       \<and> (\<forall>rows sid s. getSession rows t sid = Some s \<longrightarrow>
             (\<exists>r \<in> set rows. row_id r = sid \<and> t < row_expires_at r))"
proof -
  let ?row = "\<lparr> row_id = sessionId,
                 row_account_name = accountName,
                 row_verifier = verifier,
                 row_mode = mode,
                 row_tier = tier,
                 row_created_at = now,
                 row_expires_at = expires,
                 row_state = (if truthy state then state else None) \<rparr>"
  have ex: "js_add now (js_mul (js_mul (case ttlMinutes of None \<Rightarrow> 10 | Some m \<Rightarrow> m) 60) 1000)
              = expires"
    using expiry_exact [OF assms(4,5,6)] assms(3,7) by simp
  have db': "db' = db @ [?row]"
    using createSession_row(2) [OF assms(2)] ex by simp
  have fresh: "sessionId \<notin> set (map row_id db)"
    by (rule createSession_row(1) [OF assms(2)])
  have dist: "distinct (map row_id db')"
    using assms(1) fresh by (simp add: db')
  have g: "getSession db' u sessionId = (if u < expires then Some session else None)" for u
    using getSession_general [OF dist, of ?row u] assms(8) by (simp add: db')
  have d: "ttlMinutes = None \<Longrightarrow> expires = now + 600000"
    using assms(3,7) by simp
  have stored: "\<exists>row \<in> set db'. row_id row = sessionId \<and> row_created_at row = now
             \<and> row_expires_at row = expires"
    by (simp add: db')
  have earlier: "getSession db' t (row_id row) = getSession db t (row_id row)"
    if "row \<in> set db" for row
    using getSession_general [OF dist, of row t] getSession_general [OF assms(1) that, of t] that
    by (simp add: db')
  show ?thesis
    using g [of t] g [of "expires - 1"] g [of "expires + 1"] d stored dist earlier
      getSession_general getSession_unknown getSession_only_unexpired
    by (intro conjI allI impI ballI) (simp_all (no_asm_simp))
qed

theorem getSession_expiry_witness:
  "getSession example_table 600999 ''s1''
     = Some \<lparr> ses_accountName = ''work'', ses_verifier = ''v1'', ses_state = Some ''st'',
              ses_mode = Max, ses_tier = 5 \<rparr>
   \<and> getSession example_table 600999 ''s2''
     = Some \<lparr> ses_accountName = ''home'', ses_verifier = ''v2'', ses_state = None,
              ses_mode = Max, ses_tier = 20 \<rparr>
   \<and> getSession example_table 601000 ''s2'' = None
   \<and> getSession example_table 600999 ''s0'' = None
   \<and> (case createSession example_table 1000000 ''s3'' ''new'' ''v3'' Console 7 (Some 5) (Some [])
       of Inl e \<Rightarrow> False
        | Inr db' \<Rightarrow>
            getSession db' 1299999 ''s3''
              = Some \<lparr> ses_accountName = ''new'', ses_verifier = ''v3'', ses_state = None,
                       ses_mode = Console, ses_tier = 7 \<rparr>
            \<and> getSession db' 1300001 ''s3'' = None
            \<and> getSession db' 600999 ''s1'' = getSession example_table 600999 ''s1'')"
proof -
  let ?r0 = "\<lparr> row_id = ''s0'', row_account_name = ''old'', row_verifier = ''v0'',
                row_mode = Console, row_tier = 1, row_created_at = 100,
                row_expires_at = 500000, row_state = None \<rparr>"
  let ?r1 = "\<lparr> row_id = ''s1'', row_account_name = ''work'', row_verifier = ''v1'',
                row_mode = Max, row_tier = 5, row_created_at = 300000,
                row_expires_at = 900000, row_state = Some ''st'' \<rparr>"
  let ?r2 = "\<lparr> row_id = ''s2'', row_account_name = ''home'', row_verifier = ''v2'',
                row_mode = Max, row_tier = 20, row_created_at = 1000,
                row_expires_at = 601000, row_state = None \<rparr>"
  let ?r3 = "\<lparr> row_id = ''s3'', row_account_name = ''new'', row_verifier = ''v3'',
                row_mode = Console, row_tier = 7, row_created_at = 1000000,
                row_expires_at = 1300000, row_state = None \<rparr>"
  let ?s3 = "\<lparr> ses_accountName = ''new'', ses_verifier = ''v3'', ses_state = None,
                ses_mode = Console, ses_tier = 7 \<rparr>"
  have dist: "distinct (map row_id example_table)"
    by (simp add: example_table_def)
  have mem: "?r0 \<in> set example_table" "?r1 \<in> set example_table" "?r2 \<in> set example_table"
    by (simp_all add: example_table_def)
  have exp: "js_add 1000000 (js_mul (js_mul 5 60) 1000) = 1300000"
    by (simp add: js_add_exact js_mul_exact)
  have c: "createSession example_table 1000000 ''s3'' ''new'' ''v3'' Console 7 (Some 5) (Some [])
             = Inr (example_table @ [?r3])"
    by (simp add: createSession_def Let_def truthy_def exp) (simp add: example_table_def)
  have ttl: "(5::int) = (case Some 5 of None \<Rightarrow> 10 | Some m \<Rightarrow> m)" by simp
  have b: "\<bar>(5::int) * 60\<bar> < 2 ^ 53" "\<bar>(5::int) * 60 * 1000\<bar> < 2 ^ 53"
    "\<bar>(1000000::int) + 5 * 60 * 1000\<bar> < 2 ^ 53"
    by simp_all
  have e: "(1300000::int) = 1000000 + 5 * 60 * 1000" by simp
  have s: "?s3 = \<lparr> ses_accountName = ''new'', ses_verifier = ''v3'',
                    ses_state = (if truthy (Some []) then Some [] else None),
                    ses_mode = Console, ses_tier = 7 \<rparr>"
    by (simp add: truthy_def)
  note w = getSession_expiry [OF dist c ttl b e s]
  note general = w [THEN conjunct2, THEN conjunct2, THEN conjunct2, THEN conjunct2,
                    THEN conjunct2, THEN conjunct2, THEN conjunct2, THEN conjunct2,
                    THEN conjunct1, rule_format]
  have 1: "getSession example_table 600999 ''s1''
     = Some \<lparr> ses_accountName = ''work'', ses_verifier = ''v1'', ses_state = Some ''st'',
              ses_mode = Max, ses_tier = 5 \<rparr>"
    using general [of example_table ?r1 600999] dist mem by simp
  have 2: "getSession example_table 600999 ''s2''
     = Some \<lparr> ses_accountName = ''home'', ses_verifier = ''v2'', ses_state = None,
              ses_mode = Max, ses_tier = 20 \<rparr>"
    using general [of example_table ?r2 600999] dist mem by simp
  have 3: "getSession example_table 601000 ''s2'' = None"
    using general [of example_table ?r2 601000] dist mem by simp
  have 4: "getSession example_table 600999 ''s0'' = None"
    using general [of example_table ?r0 600999] dist mem by simp
  have 5: "getSession (example_table @ [?r3]) 1299999 ''s3'' = Some ?s3"
    using w [of 0, THEN conjunct2, THEN conjunct2, THEN conjunct1] by simp
  have 6: "getSession (example_table @ [?r3]) 1300001 ''s3'' = None"
    using w [of 0, THEN conjunct2, THEN conjunct2, THEN conjunct2, THEN conjunct1] by simp
  have 7: "getSession (example_table @ [?r3]) 600999 ''s1''
             = getSession example_table 600999 ''s1''"
    using w [of 600999, THEN conjunct2, THEN conjunct2, THEN conjunct2, THEN conjunct2,
             THEN conjunct2, THEN conjunct2, THEN conjunct2, THEN conjunct1, rule_format,
             OF mem(2)]
    by simp
  show ?thesis
    unfolding c using 1 2 3 4 5 6 7 by simp
qed

section \<open>Properties of the proxy operations\<close>

lemma add_logs_fields [simp]:
  "store (add_logs es w) = store w"
  "sent (add_logs es w) = sent w"
  "forwarded (add_logs es w) = forwarded w"
  "logs (add_logs es w) = logs w @ es"
  by (simp_all add: add_logs_def)







lemma pwa_forwarded:
  assumes "getValidAccessToken env account (store w) = (Inr tok, s1)"
    and "prepareHeaders env (in_headers req) (Some tok) (apiKey_of account) = Inr headers"
    and "buildUrl env (pathname url) (search url) = Inr targetUrl"
    and "request = \<lparr> up_url = targetUrl, up_method = in_method req, up_headers = headers,
                      up_body_stream = createBodyStream, up_has_body = in_has_body req \<rparr>"
    and "makeProxyRequest env request = Inr response"
    and "processProxyResponse env response account s1 = (Inr False, s2)"
    and "record = account_forwarding req url account requestMeta requestBodyBuffer
                    failoverAttempts response"
  shows "fst (proxyWithAccount env req url account requestMeta requestBodyBuffer createBodyStream
                failoverAttempts w)
           = (case forwardToClient env record of
                Inl e \<Rightarrow> Resolved None
              | Inr (Resolved r) \<Rightarrow> Resolved (Some r)
              | Inr (Rejected e) \<Rightarrow> Rejected e)
       \<and> sent (snd (proxyWithAccount env req url account requestMeta requestBodyBuffer
                      createBodyStream failoverAttempts w)) = sent w @ [request]
       \<and> forwarded (snd (proxyWithAccount env req url account requestMeta requestBodyBuffer
                           createBodyStream failoverAttempts w)) = forwarded w @ [record]
       \<and> store (snd (proxyWithAccount env req url account requestMeta requestBodyBuffer
                       createBodyStream failoverAttempts w)) = s2
       \<and> (\<forall>e. forwardToClient env record = Inl e \<longrightarrow>
             HandleProxyError e account
               \<in> set (logs (snd (proxyWithAccount env req url account requestMeta
                                   requestBodyBuffer createBodyStream failoverAttempts w))))
       \<and> set (account_logs req url account)
           \<subseteq> set (logs (snd (proxyWithAccount env req url account requestMeta requestBodyBuffer
                               createBodyStream failoverAttempts w)))"
  using assms
  by (auto simp: proxyWithAccount_def proxyWithAccount_try_def Let_def
           split: sum.splits promise.splits)

lemma proxyWithAccount_rejects_only_by_forwarding:
  assumes "fst (proxyWithAccount env req url account requestMeta requestBodyBuffer
                  createBodyStream failoverAttempts w) = Rejected e"
  shows "\<exists>tok s1 headers targetUrl response s2.
           getValidAccessToken env account (store w) = (Inr tok, s1)
         \<and> prepareHeaders env (in_headers req) (Some tok) (apiKey_of account) = Inr headers
         \<and> buildUrl env (pathname url) (search url) = Inr targetUrl
         \<and> makeProxyRequest env
              \<lparr> up_url = targetUrl, up_method = in_method req, up_headers = headers,
                up_body_stream = createBodyStream, up_has_body = in_has_body req \<rparr>
             = Inr response
         \<and> processProxyResponse env response account s1 = (Inr False, s2)
         \<and> forwardToClient env
              (account_forwarding req url account requestMeta requestBodyBuffer
                 failoverAttempts response)
             = Inr (Rejected e)"
  using assms
  by (auto simp: proxyWithAccount_def proxyWithAccount_try_def Let_def
           split: sum.splits prod.splits option.splits promise.splits if_splits)

lemma proxyWithAccount_passes_rejection:
  assumes "getValidAccessToken env account (store w) = (Inr tok, s1)"
    and "prepareHeaders env (in_headers req) (Some tok) (apiKey_of account) = Inr headers"
    and "buildUrl env (pathname url) (search url) = Inr targetUrl"
    and "makeProxyRequest env
           \<lparr> up_url = targetUrl, up_method = in_method req, up_headers = headers,
             up_body_stream = createBodyStream, up_has_body = in_has_body req \<rparr>
          = Inr response"
    and "processProxyResponse env response account s1 = (Inr False, s2)"
    and "forwardToClient env
           (account_forwarding req url account requestMeta requestBodyBuffer
              failoverAttempts response)
          = Inr (Rejected e)"
  shows "fst (proxyWithAccount env req url account requestMeta requestBodyBuffer createBodyStream
                failoverAttempts w) = Rejected e"
  using pwa_forwarded [OF assms(1,2,3) refl assms(4,5) refl, of requestMeta requestBodyBuffer
                          failoverAttempts]
    assms(6)
  by simp

text \<open>
  Claim C1, at an input where the code breaks it. The account has a token, the upstream
  answers 200 and the response is not rate-limited, so the response is handed to
  \<open>forwardToClient\<close>. When the promise that \<open>forwardToClient\<close> returns rejects, the promise of
  \<open>proxyWithAccount\<close> rejects with the same error and nothing is handed to
  \<open>handleProxyError\<close>: line 369 returns the promise without \<open>await\<close>, so the \<open>catch\<close> of
  lines 385-388 does not see the rejection. In the same situation a synchronous throw of
  \<open>forwardToClient\<close> is caught and gives \<open>null\<close>, and a delivered response is returned.
\<close>

theorem proxyWithAccount_forwarding_rejection:
  "fst (proxyWithAccount
          (example_proxy_env (Inr ''tok'') (Inr (example_upstream 200)) (Inr False)
             forward_rejects)
          example_request example_url example_account example_meta None None 0 example_world)
     = Rejected (JsError ''usage worker terminated'')
   \<and> filter (\<lambda>entry. case entry of HandleProxyError e a \<Rightarrow> True | _ \<Rightarrow> False)
        (logs (snd (proxyWithAccount
          (example_proxy_env (Inr ''tok'') (Inr (example_upstream 200)) (Inr False)
             forward_rejects)
          example_request example_url example_account example_meta None None 0 example_world)))
     = []
   \<and> fst (proxyWithAccount
          (example_proxy_env (Inr ''tok'') (Inr (example_upstream 200)) (Inr False)
             forward_throws)
          example_request example_url example_account example_meta None None 0 example_world)
     = Resolved None
   \<and> fst (proxyWithAccount
          (example_proxy_env (Inr ''tok'') (Inr (example_upstream 200)) (Inr False)
             forward_delivers)
          example_request example_url example_account example_meta None None 0 example_world)
     = Resolved (Some (example_upstream 200))"
  by (simp add: proxyWithAccount_def proxyWithAccount_try_def Let_def example_proxy_env_def
        example_world_def forward_rejects_def forward_throws_def forward_delivers_def
        account_forwarding_def account_logs_def token_logs_def request_logs_def
        response_logs_def example_upstream_def show_nat.simps isClaudeCodeRequest_def
        isMaxAccount_def is_true_def show_flag_def headers_get_def example_request_def
        example_account_def example_url_def truthy_def apiKey_of_def)







lemma pu_warns:
  "Log Warn (NO_ACCOUNTS env)
     \<in> set (logs (snd (proxyUnauthenticated env req url requestMeta requestBodyBuffer
                         createBodyStream w)))"
  by (simp add: proxyUnauthenticated_def unauthenticated_catch_def Let_def
           split: sum.splits)

lemma pu_url_throws:
  assumes "buildUrl env (pathname url) (search url) = Inl e"
  shows "fst (proxyUnauthenticated env req url requestMeta requestBodyBuffer createBodyStream w)
           = Rejected e
       \<and> sent (snd (proxyUnauthenticated env req url requestMeta requestBodyBuffer
                      createBodyStream w)) = sent w
       \<and> forwarded (snd (proxyUnauthenticated env req url requestMeta requestBodyBuffer
                           createBodyStream w)) = forwarded w"
  using assms by (simp add: proxyUnauthenticated_def Let_def)

lemma pu_headers_throw:
  assumes "buildUrl env (pathname url) (search url) = Inr targetUrl"
    and "prepareHeaders env (in_headers req) None None = Inl e"
  shows "fst (proxyUnauthenticated env req url requestMeta requestBodyBuffer createBodyStream w)
           = Rejected e
       \<and> sent (snd (proxyUnauthenticated env req url requestMeta requestBodyBuffer
                      createBodyStream w)) = sent w
       \<and> forwarded (snd (proxyUnauthenticated env req url requestMeta requestBodyBuffer
                           createBodyStream w)) = forwarded w"
  using assms by (simp add: proxyUnauthenticated_def Let_def)

lemma pu_sent:
  assumes "buildUrl env (pathname url) (search url) = Inr targetUrl"
    and "prepareHeaders env (in_headers req) None None = Inr headers"
  shows "sent (snd (proxyUnauthenticated env req url requestMeta requestBodyBuffer
                      createBodyStream w))
           = sent w @ [\<lparr> up_url = targetUrl, up_method = in_method req, up_headers = headers,
                         up_body_stream = createBodyStream, up_has_body = in_has_body req \<rparr>]"
  using assms
  by (simp add: proxyUnauthenticated_def unauthenticated_catch_def Let_def split: sum.splits)

lemma pu_send_throws:
  assumes "buildUrl env (pathname url) (search url) = Inr targetUrl"
    and "prepareHeaders env (in_headers req) None None = Inr headers"
    and "makeProxyRequest env
           \<lparr> up_url = targetUrl, up_method = in_method req, up_headers = headers,
             up_body_stream = createBodyStream, up_has_body = in_has_body req \<rparr> = Inl e"
  shows "fst (proxyUnauthenticated env req url requestMeta requestBodyBuffer createBodyStream w)
           = Rejected (ProviderError (UNAUTHENTICATED_FAILED env) (provider_name env) 502
                         (error_text e))
       \<and> LogError e
           \<in> set (logs (snd (proxyUnauthenticated env req url requestMeta requestBodyBuffer
                               createBodyStream w)))
       \<and> forwarded (snd (proxyUnauthenticated env req url requestMeta requestBodyBuffer
                           createBodyStream w)) = forwarded w"
  using assms by (simp add: proxyUnauthenticated_def unauthenticated_catch_def Let_def)

lemma pu_forwarded:
  assumes "buildUrl env (pathname url) (search url) = Inr targetUrl"
    and "prepareHeaders env (in_headers req) None None = Inr headers"
    and "makeProxyRequest env
           \<lparr> up_url = targetUrl, up_method = in_method req, up_headers = headers,
             up_body_stream = createBodyStream, up_has_body = in_has_body req \<rparr> = Inr response"
    and "record = \<lparr> fw_requestId = meta_id requestMeta,
                    fw_method = in_method req,
                    fw_path = pathname url,
                    fw_account = None,
                    fw_requestHeaders = in_headers req,
                    fw_requestBody = requestBodyBuffer,
                    fw_response = response,
                    fw_timestamp = meta_timestamp requestMeta,
                    fw_retryAttempt = 0,
                    fw_failoverAttempts = 0,
                    fw_agentUsed = meta_agentUsed requestMeta \<rparr>"
  shows "fst (proxyUnauthenticated env req url requestMeta requestBodyBuffer createBodyStream w)
           = (case forwardToClient env record of
                Inl e \<Rightarrow> Rejected (ProviderError (UNAUTHENTICATED_FAILED env) (provider_name env)
                                    502 (error_text e))
              | Inr returned \<Rightarrow> returned)
       \<and> forwarded (snd (proxyUnauthenticated env req url requestMeta requestBodyBuffer
                           createBodyStream w)) = forwarded w @ [record]
       \<and> (\<forall>e. forwardToClient env record = Inl e \<longrightarrow>
             LogError e
               \<in> set (logs (snd (proxyUnauthenticated env req url requestMeta requestBodyBuffer
                                   createBodyStream w))))"
  using assms
  by (simp add: proxyUnauthenticated_def unauthenticated_catch_def unauthenticated_forwarding_def
        Let_def split: sum.splits)

text \<open>
  Claim C2, as amended. \<open>proxyUnauthenticated\<close> builds the URL and the headers
  (\<open>prepareHeaders\<close> with neither access token nor API key) before its \<open>try\<close>: when one of
  them throws, nothing is sent and that error is raised as it is. Otherwise exactly one
  upstream request is sent, with that URL and those headers. When the attempt throws, the
  error is logged and a \<open>ProviderError\<close> with status 502 and the detail of the error (the
  message of an \<open>Error\<close>, the text of any other value) is raised, and nothing is forwarded.
  When the attempt returns a response, that response is handed to \<open>forwardToClient\<close> in a
  forwarding record without account; the response that promise delivers is returned, and
  a synchronous throw of \<open>forwardToClient\<close> is logged and raised as a \<open>ProviderError\<close> with
  status 502 as well.
\<close>

theorem proxyUnauthenticated_single_attempt:
  "(\<forall>e. buildUrl env (pathname url) (search url) = Inl e
          \<or> (\<exists>targetUrl. buildUrl env (pathname url) (search url) = Inr targetUrl)
             \<and> prepareHeaders env (in_headers req) None None = Inl e
        \<longrightarrow> fst (proxyUnauthenticated env req url requestMeta requestBodyBuffer
                   createBodyStream w) = Rejected e
          \<and> sent (snd (proxyUnauthenticated env req url requestMeta requestBodyBuffer
                         createBodyStream w)) = sent w)
   \<and> (\<forall>targetUrl headers.
         buildUrl env (pathname url) (search url) = Inr targetUrl
         \<and> prepareHeaders env (in_headers req) None None = Inr headers
        \<longrightarrow> sent (snd (proxyUnauthenticated env req url requestMeta requestBodyBuffer
                         createBodyStream w))
              = sent w @ [\<lparr> up_url = targetUrl, up_method = in_method req,
                            up_headers = headers, up_body_stream = createBodyStream,
                            up_has_body = in_has_body req \<rparr>]
          \<and> (\<forall>e. makeProxyRequest env
                     \<lparr> up_url = targetUrl, up_method = in_method req, up_headers = headers,
                       up_body_stream = createBodyStream, up_has_body = in_has_body req \<rparr>
                    = Inl e
                \<longrightarrow> fst (proxyUnauthenticated env req url requestMeta requestBodyBuffer
                           createBodyStream w)
                      = Rejected (ProviderError (UNAUTHENTICATED_FAILED env) (provider_name env)
                                    502
                                    (case e of JsError message \<Rightarrow> message
                                             | NonError text \<Rightarrow> text
                                             | _ \<Rightarrow> error_text e))
                  \<and> LogError e
                      \<in> set (logs (snd (proxyUnauthenticated env req url requestMeta
                                          requestBodyBuffer createBodyStream w)))
                  \<and> forwarded (snd (proxyUnauthenticated env req url requestMeta
                                      requestBodyBuffer createBodyStream w)) = forwarded w)
          \<and> (\<forall>response.
                makeProxyRequest env
                     \<lparr> up_url = targetUrl, up_method = in_method req, up_headers = headers,
                       up_body_stream = createBodyStream, up_has_body = in_has_body req \<rparr>
                    = Inr response
                \<longrightarrow> forwarded (snd (proxyUnauthenticated env req url requestMeta
                                      requestBodyBuffer createBodyStream w))
                      = forwarded w
                        @ [\<lparr> fw_requestId = meta_id requestMeta,
                             fw_method = in_method req,
                             fw_path = pathname url,
                             fw_account = None,
                             fw_requestHeaders = in_headers req,
                             fw_requestBody = requestBodyBuffer,
                             fw_response = response,
                             fw_timestamp = meta_timestamp requestMeta,
                             fw_retryAttempt = 0,
                             fw_failoverAttempts = 0,
                             fw_agentUsed = meta_agentUsed requestMeta \<rparr>]
                  \<and> (\<forall>r. forwardToClient env
                               \<lparr> fw_requestId = meta_id requestMeta,
                                 fw_method = in_method req,
                                 fw_path = pathname url,
                                 fw_account = None,
                                 fw_requestHeaders = in_headers req,
                                 fw_requestBody = requestBodyBuffer,
                                 fw_response = response,
                                 fw_timestamp = meta_timestamp requestMeta,
                                 fw_retryAttempt = 0,
                                 fw_failoverAttempts = 0,
                                 fw_agentUsed = meta_agentUsed requestMeta \<rparr>
                              = Inr (Resolved r)
                          \<longrightarrow> fst (proxyUnauthenticated env req url requestMeta
                                     requestBodyBuffer createBodyStream w) = Resolved r)
                  \<and> (\<forall>e. forwardToClient env
                               \<lparr> fw_requestId = meta_id requestMeta,
                                 fw_method = in_method req,
                                 fw_path = pathname url,
                                 fw_account = None,
                                 fw_requestHeaders = in_headers req,
                                 fw_requestBody = requestBodyBuffer,
                                 fw_response = response,
                                 fw_timestamp = meta_timestamp requestMeta,
                                 fw_retryAttempt = 0,
                                 fw_failoverAttempts = 0,
                                 fw_agentUsed = meta_agentUsed requestMeta \<rparr>
                              = Inl e
                          \<longrightarrow> fst (proxyUnauthenticated env req url requestMeta
                                     requestBodyBuffer createBodyStream w)
                                = Rejected (ProviderError (UNAUTHENTICATED_FAILED env)
                                              (provider_name env) 502
                                              (case e of JsError message \<Rightarrow> message
                                                       | NonError text \<Rightarrow> text
                                                       | _ \<Rightarrow> error_text e))
                            \<and> LogError e
                                \<in> set (logs (snd (proxyUnauthenticated env req url requestMeta
                                                    requestBodyBuffer createBodyStream w))))))"
proof (intro conjI allI impI)
  fix e
  assume "buildUrl env (pathname url) (search url) = Inl e
          \<or> (\<exists>targetUrl. buildUrl env (pathname url) (search url) = Inr targetUrl)
             \<and> prepareHeaders env (in_headers req) None None = Inl e"
  then have p: "fst (proxyUnauthenticated env req url requestMeta requestBodyBuffer
                       createBodyStream w) = Rejected e
              \<and> sent (snd (proxyUnauthenticated env req url requestMeta requestBodyBuffer
                             createBodyStream w)) = sent w"
    using pu_url_throws [of env url e req requestMeta requestBodyBuffer createBodyStream w]
      pu_headers_throw [of env url _ req e requestMeta requestBodyBuffer createBodyStream w]
    by blast
  from p show "fst (proxyUnauthenticated env req url requestMeta requestBodyBuffer
                      createBodyStream w) = Rejected e" by simp
  from p show "sent (snd (proxyUnauthenticated env req url requestMeta requestBodyBuffer
                            createBodyStream w)) = sent w" by simp
next
  fix targetUrl headers
  assume a: "buildUrl env (pathname url) (search url) = Inr targetUrl
             \<and> prepareHeaders env (in_headers req) None None = Inr headers"
  then have u: "buildUrl env (pathname url) (search url) = Inr targetUrl"
    and h: "prepareHeaders env (in_headers req) None None = Inr headers"
    by simp_all
  let ?request = "\<lparr> up_url = targetUrl, up_method = in_method req, up_headers = headers,
                     up_body_stream = createBodyStream, up_has_body = in_has_body req \<rparr>"
  show "sent (snd (proxyUnauthenticated env req url requestMeta requestBodyBuffer
                     createBodyStream w)) = sent w @ [?request]"
    by (rule pu_sent [OF u h])
  {
    fix e
    assume m: "makeProxyRequest env ?request = Inl e"
    have t: "(case e of JsError message \<Rightarrow> message | NonError text \<Rightarrow> text
                      | _ \<Rightarrow> error_text e) = error_text e"
      by (cases e) simp_all
    note p = pu_send_throws [OF u h m, of requestMeta requestBodyBuffer w]
    from p show "fst (proxyUnauthenticated env req url requestMeta requestBodyBuffer
                        createBodyStream w)
                   = Rejected (ProviderError (UNAUTHENTICATED_FAILED env) (provider_name env)
                                 502
                                 (case e of JsError message \<Rightarrow> message
                                          | NonError text \<Rightarrow> text
                                          | _ \<Rightarrow> error_text e))"
      unfolding t by simp
    from p show "LogError e
                   \<in> set (logs (snd (proxyUnauthenticated env req url requestMeta
                                       requestBodyBuffer createBodyStream w)))" by simp
    from p show "forwarded (snd (proxyUnauthenticated env req url requestMeta
                                   requestBodyBuffer createBodyStream w)) = forwarded w"
      by simp
  }
  {
    fix response
    assume m: "makeProxyRequest env ?request = Inr response"
    let ?handed = "\<lparr> fw_requestId = meta_id requestMeta,
                      fw_method = in_method req,
                      fw_path = pathname url,
                      fw_account = None,
                      fw_requestHeaders = in_headers req,
                      fw_requestBody = requestBodyBuffer,
                      fw_response = response,
                      fw_timestamp = meta_timestamp requestMeta,
                      fw_retryAttempt = 0,
                      fw_failoverAttempts = 0,
                      fw_agentUsed = meta_agentUsed requestMeta \<rparr>"
    note p = pu_forwarded [OF u h m refl, of requestMeta requestBodyBuffer w]
    from p show "forwarded (snd (proxyUnauthenticated env req url requestMeta
                                   requestBodyBuffer createBodyStream w))
                   = forwarded w @ [?handed]" by simp
    {
      fix r
      assume "forwardToClient env ?handed = Inr (Resolved r)"
      with p show "fst (proxyUnauthenticated env req url requestMeta
                          requestBodyBuffer createBodyStream w) = Resolved r" by simp
    }
    {
      fix e
      assume f: "forwardToClient env ?handed = Inl e"
      have t: "(case e of JsError message \<Rightarrow> message | NonError text \<Rightarrow> text
                        | _ \<Rightarrow> error_text e) = error_text e"
        by (cases e) simp_all
      from p f show "fst (proxyUnauthenticated env req url requestMeta
                            requestBodyBuffer createBodyStream w)
                       = Rejected (ProviderError (UNAUTHENTICATED_FAILED env)
                                     (provider_name env) 502
                                     (case e of JsError message \<Rightarrow> message
                                              | NonError text \<Rightarrow> text
                                              | _ \<Rightarrow> error_text e))"
        unfolding t by simp
      from p f show "LogError e
                       \<in> set (logs (snd (proxyUnauthenticated env req url requestMeta
                                           requestBodyBuffer createBodyStream w)))" by simp
    }
  }
qed

theorem proxyUnauthenticated_single_attempt_witness:
  "sent (snd (proxyUnauthenticated
          (example_proxy_env (Inr ''tok'') (Inr (example_upstream 200)) (Inr False)
             forward_delivers)
          example_request example_url example_meta (Some ''{}'') (Some ''stream'')
          example_world))
     = [\<lparr> up_url = ''https://api.anthropic.com/v1/messages?beta=true'',
          up_method = ''POST'',
          up_headers = [(''x-app'', ''cli''), (''user-agent'', ''claude-cli/1.0.30'')],
          up_body_stream = Some ''stream'',
          up_has_body = True \<rparr>]
   \<and> forwarded (snd (proxyUnauthenticated
          (example_proxy_env (Inr ''tok'') (Inr (example_upstream 200)) (Inr False)
             forward_delivers)
          example_request example_url example_meta (Some ''{}'') (Some ''stream'')
          example_world))
     = [\<lparr> fw_requestId = ''req-1'',
          fw_method = ''POST'',
          fw_path = ''/v1/messages'',
          fw_account = None,
          fw_requestHeaders = [(''x-app'', ''cli''), (''user-agent'', ''claude-cli/1.0.30'')],
          fw_requestBody = Some ''{}'',
          fw_response = \<lparr> resp_status = 200, resp_statusText = [],
                           resp_headers = [(''content-type'', ''application/json'')],
                           resp_text = Inr ''{}'' \<rparr>,
          fw_timestamp = 1700000000000,
          fw_retryAttempt = 0,
          fw_failoverAttempts = 0,
          fw_agentUsed = Some ''agent-7'' \<rparr>]
   \<and> fst (proxyUnauthenticated
          (example_proxy_env (Inr ''tok'') (Inr (example_upstream 200)) (Inr False)
             forward_delivers)
          example_request example_url example_meta (Some ''{}'') (Some ''stream'')
          example_world)
     = Resolved \<lparr> resp_status = 200, resp_statusText = [],
                   resp_headers = [(''content-type'', ''application/json'')],
                   resp_text = Inr ''{}'' \<rparr>
   \<and> fst (proxyUnauthenticated
          (example_proxy_env (Inr ''tok'') (Inl (JsError ''ECONNREFUSED'')) (Inr False)
             forward_delivers)
          example_request example_url example_meta None None example_world)
     = Rejected (ProviderError ''Failed to forward unauthenticated request'' ''anthropic'' 502
                   ''ECONNREFUSED'')
   \<and> LogError (JsError ''ECONNREFUSED'')
       \<in> set (logs (snd (proxyUnauthenticated
          (example_proxy_env (Inr ''tok'') (Inl (JsError ''ECONNREFUSED'')) (Inr False)
             forward_delivers)
          example_request example_url example_meta None None example_world)))
   \<and> sent (snd (proxyUnauthenticated
          (example_proxy_env (Inr ''tok'') (Inl (JsError ''ECONNREFUSED'')) (Inr False)
             forward_delivers)
          example_request example_url example_meta None None example_world))
     = [\<lparr> up_url = ''https://api.anthropic.com/v1/messages?beta=true'',
          up_method = ''POST'',
          up_headers = [(''x-app'', ''cli''), (''user-agent'', ''claude-cli/1.0.30'')],
          up_body_stream = None,
          up_has_body = True \<rparr>]
   \<and> fst (proxyUnauthenticated
          (example_proxy_env (Inr ''tok'') (Inl (NonError ''boom'')) (Inr False)
             forward_delivers)
          example_request example_url example_meta None None example_world)
     = Rejected (ProviderError ''Failed to forward unauthenticated request'' ''anthropic'' 502
                   ''boom'')
   \<and> fst (proxyUnauthenticated
          (example_proxy_env (Inr ''tok'') (Inr (example_upstream 500)) (Inr False)
             forward_throws)
          example_request example_url example_meta None None example_world)
     = Rejected (ProviderError ''Failed to forward unauthenticated request'' ''anthropic'' 502
                   ''cannot clone response'')
   \<and> fst (proxyUnauthenticated
          ((example_proxy_env (Inr ''tok'') (Inr (example_upstream 200)) (Inr False)
              forward_delivers)
             \<lparr> prepareHeaders := (\<lambda>h t k. Inl (JsError ''Invalid header value'')) \<rparr>)
          example_request example_url example_meta None None example_world)
     = Rejected (JsError ''Invalid header value'')
   \<and> sent (snd (proxyUnauthenticated
          ((example_proxy_env (Inr ''tok'') (Inr (example_upstream 200)) (Inr False)
              forward_delivers)
             \<lparr> prepareHeaders := (\<lambda>h t k. Inl (JsError ''Invalid header value'')) \<rparr>)
          example_request example_url example_meta None None example_world))
     = []"
proof -
  let ?env1 = "example_proxy_env (Inr ''tok'') (Inr (example_upstream 200)) (Inr False)
                 forward_delivers"
  let ?env2 = "example_proxy_env (Inr ''tok'') (Inl (JsError ''ECONNREFUSED'')) (Inr False)
                 forward_delivers"
  let ?env3 = "example_proxy_env (Inr ''tok'') (Inl (NonError ''boom'')) (Inr False)
                 forward_delivers"
  let ?env4 = "example_proxy_env (Inr ''tok'') (Inr (example_upstream 500)) (Inr False)
                 forward_throws"
  let ?env5 = "(example_proxy_env (Inr ''tok'') (Inr (example_upstream 200)) (Inr False)
                  forward_delivers)
                 \<lparr> prepareHeaders := (\<lambda>h t k. Inl (JsError ''Invalid header value'')) \<rparr>"
  let ?url = "''https://api.anthropic.com/v1/messages?beta=true''"
  let ?headers = "[(''x-app'', ''cli''), (''user-agent'', ''claude-cli/1.0.30'')]"
  note A = proxyUnauthenticated_single_attempt
             [of ?env1 example_url example_request example_meta "Some ''{}''" "Some ''stream''"
                 example_world]
  note B = proxyUnauthenticated_single_attempt
             [of ?env2 example_url example_request example_meta None None example_world]
  note C = proxyUnauthenticated_single_attempt
             [of ?env3 example_url example_request example_meta None None example_world]
  note D = proxyUnauthenticated_single_attempt
             [of ?env4 example_url example_request example_meta None None example_world]
  note E = proxyUnauthenticated_single_attempt
             [of ?env5 example_url example_request example_meta None None example_world]
  have prep: "buildUrl env (pathname example_url) (search example_url) = Inr ?url
            \<and> prepareHeaders env (in_headers example_request) None None = Inr ?headers"
    if "env = example_proxy_env token upstream limited forwarding_f"
    for env :: "nat proxy_env" and token upstream limited forwarding_f
    using that by (simp add: example_proxy_env_def example_url_def example_request_def)
  note A2 = A [THEN conjunct2, rule_format, OF prep [OF refl]]
  note B2 = B [THEN conjunct2, rule_format, OF prep [OF refl]]
  note C2 = C [THEN conjunct2, rule_format, OF prep [OF refl]]
  note D2 = D [THEN conjunct2, rule_format, OF prep [OF refl]]
  have prep5: "buildUrl ?env5 (pathname example_url) (search example_url)
                 = Inl (JsError ''Invalid header value'')
               \<or> (\<exists>targetUrl. buildUrl ?env5 (pathname example_url) (search example_url)
                                 = Inr targetUrl)
                 \<and> prepareHeaders ?env5 (in_headers example_request) None None
                     = Inl (JsError ''Invalid header value'')"
    by (simp add: example_proxy_env_def)
  note E1 = E [THEN conjunct1, rule_format, OF prep5]
  have m1: "makeProxyRequest ?env1
              \<lparr> up_url = ?url, up_method = in_method example_request, up_headers = ?headers,
                up_body_stream = Some ''stream'', up_has_body = in_has_body example_request \<rparr>
              = Inr (example_upstream 200)"
    by (simp add: example_proxy_env_def)
  have m2: "makeProxyRequest ?env2
              \<lparr> up_url = ?url, up_method = in_method example_request, up_headers = ?headers,
                up_body_stream = None, up_has_body = in_has_body example_request \<rparr>
              = Inl (JsError ''ECONNREFUSED'')"
    by (simp add: example_proxy_env_def)
  have m3: "makeProxyRequest ?env3
              \<lparr> up_url = ?url, up_method = in_method example_request, up_headers = ?headers,
                up_body_stream = None, up_has_body = in_has_body example_request \<rparr>
              = Inl (NonError ''boom'')"
    by (simp add: example_proxy_env_def)
  have m4: "makeProxyRequest ?env4
              \<lparr> up_url = ?url, up_method = in_method example_request, up_headers = ?headers,
                up_body_stream = None, up_has_body = in_has_body example_request \<rparr>
              = Inr (example_upstream 500)"
    by (simp add: example_proxy_env_def)
  note A3 = A2 [THEN conjunct2, THEN conjunct2, rule_format, OF m1]
  note B3 = B2 [THEN conjunct2, THEN conjunct1, rule_format, OF m2]
  note C3 = C2 [THEN conjunct2, THEN conjunct1, rule_format, OF m3]
  note D3 = D2 [THEN conjunct2, THEN conjunct2, rule_format, OF m4]
  have f1: "forwardToClient ?env1
              \<lparr> fw_requestId = meta_id example_meta,
                fw_method = in_method example_request,
                fw_path = pathname example_url,
                fw_account = None,
                fw_requestHeaders = in_headers example_request,
                fw_requestBody = Some ''{}'',
                fw_response = example_upstream 200,
                fw_timestamp = meta_timestamp example_meta,
                fw_retryAttempt = 0,
                fw_failoverAttempts = 0,
                fw_agentUsed = meta_agentUsed example_meta \<rparr>
              = Inr (Resolved (example_upstream 200))"
    by (simp add: example_proxy_env_def forward_delivers_def)
  have f4: "forwardToClient ?env4
              \<lparr> fw_requestId = meta_id example_meta,
                fw_method = in_method example_request,
                fw_path = pathname example_url,
                fw_account = None,
                fw_requestHeaders = in_headers example_request,
                fw_requestBody = None,
                fw_response = example_upstream 500,
                fw_timestamp = meta_timestamp example_meta,
                fw_retryAttempt = 0,
                fw_failoverAttempts = 0,
                fw_agentUsed = meta_agentUsed example_meta \<rparr>
              = Inl (JsError ''cannot clone response'')"
    by (simp add: example_proxy_env_def forward_throws_def)
  note A4 = A3 [THEN conjunct2, THEN conjunct1, rule_format, OF f1]
  note D4 = D3 [THEN conjunct2, THEN conjunct2, rule_format, OF f4]
  show ?thesis
  proof (intro conjI)
    show "sent (snd (proxyUnauthenticated ?env1 example_request example_url example_meta
                       (Some ''{}'') (Some ''stream'') example_world))
            = [\<lparr> up_url = ?url, up_method = ''POST'', up_headers = ?headers,
                 up_body_stream = Some ''stream'', up_has_body = True \<rparr>]"
      using A2 [THEN conjunct1] by (simp add: example_world_def example_request_def)
    show "forwarded (snd (proxyUnauthenticated ?env1 example_request example_url example_meta
                       (Some ''{}'') (Some ''stream'') example_world))
            = [\<lparr> fw_requestId = ''req-1'',
                 fw_method = ''POST'',
                 fw_path = ''/v1/messages'',
                 fw_account = None,
                 fw_requestHeaders = ?headers,
                 fw_requestBody = Some ''{}'',
                 fw_response = \<lparr> resp_status = 200, resp_statusText = [],
                                  resp_headers = [(''content-type'', ''application/json'')],
                                  resp_text = Inr ''{}'' \<rparr>,
                 fw_timestamp = 1700000000000,
                 fw_retryAttempt = 0,
                 fw_failoverAttempts = 0,
                 fw_agentUsed = Some ''agent-7'' \<rparr>]"
      using A3 [THEN conjunct1]
      by (simp add: example_world_def example_request_def example_url_def example_meta_def
            example_upstream_def)
    show "fst (proxyUnauthenticated ?env1 example_request example_url example_meta
                 (Some ''{}'') (Some ''stream'') example_world)
            = Resolved \<lparr> resp_status = 200, resp_statusText = [],
                          resp_headers = [(''content-type'', ''application/json'')],
                          resp_text = Inr ''{}'' \<rparr>"
      using A4 by (simp add: example_upstream_def)
    show "fst (proxyUnauthenticated ?env2 example_request example_url example_meta None None
                 example_world)
            = Rejected (ProviderError ''Failed to forward unauthenticated request''
                          ''anthropic'' 502 ''ECONNREFUSED'')"
      using B3 [THEN conjunct1] by (simp add: example_proxy_env_def)
    show "LogError (JsError ''ECONNREFUSED'')
            \<in> set (logs (snd (proxyUnauthenticated ?env2 example_request example_url
                                example_meta None None example_world)))"
      using B3 [THEN conjunct2, THEN conjunct1] by simp
    show "sent (snd (proxyUnauthenticated ?env2 example_request example_url example_meta None
                       None example_world))
            = [\<lparr> up_url = ?url, up_method = ''POST'', up_headers = ?headers,
                 up_body_stream = None, up_has_body = True \<rparr>]"
      using B2 [THEN conjunct1] by (simp add: example_world_def example_request_def)
    show "fst (proxyUnauthenticated ?env3 example_request example_url example_meta None None
                 example_world)
            = Rejected (ProviderError ''Failed to forward unauthenticated request''
                          ''anthropic'' 502 ''boom'')"
      using C3 [THEN conjunct1] by (simp add: example_proxy_env_def)
    show "fst (proxyUnauthenticated ?env4 example_request example_url example_meta None None
                 example_world)
            = Rejected (ProviderError ''Failed to forward unauthenticated request''
                          ''anthropic'' 502 ''cannot clone response'')"
      using D4 [THEN conjunct1] by (simp add: example_proxy_env_def)
    show "fst (proxyUnauthenticated ?env5 example_request example_url example_meta None None
                 example_world) = Rejected (JsError ''Invalid header value'')"
      using E1 [THEN conjunct1] by simp
    show "sent (snd (proxyUnauthenticated ?env5 example_request example_url example_meta None
                       None example_world)) = []"
      using E1 [THEN conjunct2] by (simp add: example_world_def)
  qed
qed

theorem proxyUnauthenticated_raises_counterexample:
  "makeProxyRequest
      (example_proxy_env (Inr ''tok'') (Inr (example_upstream 200)) (Inr False) forward_throws)
      \<lparr> up_url = ''https://api.anthropic.com/v1/messages?beta=true'',
        up_method = ''POST'',
        up_headers = [(''x-app'', ''cli''), (''user-agent'', ''claude-cli/1.0.30'')],
        up_body_stream = None,
        up_has_body = True \<rparr>
     = Inr (example_upstream 200)
   \<and> sent (snd (proxyUnauthenticated
          (example_proxy_env (Inr ''tok'') (Inr (example_upstream 200)) (Inr False)
             forward_throws)
          example_request example_url example_meta None None example_world))
     = [\<lparr> up_url = ''https://api.anthropic.com/v1/messages?beta=true'',
          up_method = ''POST'',
          up_headers = [(''x-app'', ''cli''), (''user-agent'', ''claude-cli/1.0.30'')],
          up_body_stream = None,
          up_has_body = True \<rparr>]
   \<and> fst (proxyUnauthenticated
          (example_proxy_env (Inr ''tok'') (Inr (example_upstream 200)) (Inr False)
             forward_throws)
          example_request example_url example_meta None None example_world)
     = Rejected (ProviderError ''Failed to forward unauthenticated request'' ''anthropic'' 502
                   ''cannot clone response'')
   \<and> sent (snd (proxyUnauthenticated
          ((example_proxy_env (Inr ''tok'') (Inr (example_upstream 200)) (Inr False)
              forward_delivers)
             \<lparr> prepareHeaders := (\<lambda>h t k. Inl (JsError ''Invalid header value'')) \<rparr>)
          example_request example_url example_meta None None example_world))
     = []
   \<and> fst (proxyUnauthenticated
          ((example_proxy_env (Inr ''tok'') (Inr (example_upstream 200)) (Inr False)
              forward_delivers)
             \<lparr> prepareHeaders := (\<lambda>h t k. Inl (JsError ''Invalid header value'')) \<rparr>)
          example_request example_url example_meta None None example_world)
     = Rejected (JsError ''Invalid header value'')
   \<and> fst (proxyUnauthenticated
          (example_proxy_env (Inr ''tok'') (Inr (example_upstream 200)) (Inr False)
             forward_rejects)
          example_request example_url example_meta None None example_world)
     = Rejected (JsError ''usage worker terminated'')"
  by (simp add: proxyUnauthenticated_def unauthenticated_catch_def unauthenticated_forwarding_def
        Let_def example_proxy_env_def example_world_def example_request_def example_url_def
        forward_throws_def forward_delivers_def forward_rejects_def add_logs_def)

end
